theory Spec2Isabelle
  imports Main "HOL-Library.Sublist"
begin

section \<open>Values shared by both source files\<close>

text \<open>
  Every \<^verbatim>\<open>throw\<close> of the source is a value: \<open>Error msg\<close> is \<^verbatim>\<open>new Error(msg)\<close>,
  \<open>BlindTargetingError key\<close> is \<^verbatim>\<open>new BlindTargetingError(key)\<close>, and \<open>TypeError\<close> is what
  the JavaScript runtime raises when a property of \<^verbatim>\<open>undefined\<close> is read or a non-string is
  handed to \<^verbatim>\<open>path.resolve\<close>.
\<close>

datatype error = Error string | BlindTargetingError string | TypeError

text \<open>
  A \<^verbatim>\<open>RegExp\<close> is used only through \<^verbatim>\<open>pattern.test(s)\<close>; it is modelled by that predicate.
\<close>

datatype regexp = RegExp (test: "string \<Rightarrow> bool")

text \<open>
  An options object, as far as the code reads it: the marker flag
  \<^verbatim>\<open>isBabelMultiTargetLoader\<close>, the nested \<^verbatim>\<open>loaderOptions\<close>, and an opaque rest.
\<close>

datatype js_options =
    OptionsUndefined
  | OptionsObject (isBabelMultiTargetLoader: bool) (loaderOptions: js_options) (payload: string)

section \<open>Build targets\<close>

text \<open>
  The class \<^verbatim>\<open>BabelTarget\<close> lives in \<^verbatim>\<open>babel.target.ts\<close>; the engine reads its fields
  \<^verbatim>\<open>key\<close> and \<^verbatim>\<open>options\<close>.
\<close>

record babel_target =
  key :: string
  options :: js_options

text \<open>
  Modelled from the spec: the request tag of a target (the source of \<^verbatim>\<open>babel.target.ts\<close>
  is not at hand). The
  spec's scenario tags \<^verbatim>\<open>./app.js\<close> for key \<^verbatim>\<open>legacy\<close> as \<^verbatim>\<open>./app.js?babelTarget=legacy\<close>,
  and calls the tag "a suffix/query fragment".
\<close>

definition tag :: "babel_target \<Rightarrow> string" where
  "tag t = ''?babelTarget='' @ key t"

text \<open>
  Modelled from the spec: \<^verbatim>\<open>target.getTargetedRequest(request)\<close> "appends this target's tag
  if absent".
\<close>

definition getTargetedRequest :: "babel_target \<Rightarrow> string \<Rightarrow> string" where
  "getTargetedRequest t request = (if suffix (tag t) request then request else request @ tag t)"

text \<open>
  Modelled from the spec: \<^verbatim>\<open>target.getTargetedAssetName(name)\<close> "appends \<^verbatim>\<open>.{key}\<close> suffix".
\<close>

definition getTargetedAssetName :: "babel_target \<Rightarrow> string \<Rightarrow> string" where
  "getTargetedAssetName t name = name @ ''.'' @ key t"

text \<open>
  Modelled from the spec: \<^verbatim>\<open>getTargetFromTag(request)\<close> "parses an embedded tag out of a
  request string and resolves it to a registered target (no match gives null, never throws)".
\<close>

definition getTargetFromTag :: "string \<Rightarrow> babel_target list \<Rightarrow> babel_target option" where
  "getTargetFromTag request ts = find (\<lambda>t. suffix (tag t) request) ts"

section \<open>Plain objects used as dictionaries\<close>

text \<open>
  The ledger of blind assignments, the cache of babel loaders and the asset table of a
  compilation are plain objects indexed by a string. A property that such an object does
  not have itself is looked up on \<^verbatim>\<open>Object.prototype\<close>. These are the names found there in
  Node.js, each with the \<^verbatim>\<open>length\<close> of the function it names; \<^verbatim>\<open>__proto__\<close> names an
  object, which has no \<^verbatim>\<open>length\<close>. Every one of these values is truthy, and none has a
  method \<^verbatim>\<open>shift\<close>.
\<close>

definition objectPrototype :: "(string \<times> nat option) list" where
  "objectPrototype =
     [(''constructor'', Some 1),
      (''__defineGetter__'', Some 2),
      (''__defineSetter__'', Some 2),
      (''hasOwnProperty'', Some 1),
      (''__lookupGetter__'', Some 1),
      (''__lookupSetter__'', Some 1),
      (''isPrototypeOf'', Some 1),
      (''propertyIsEnumerable'', Some 1),
      (''toString'', Some 0),
      (''valueOf'', Some 0),
      (''__proto__'', None),
      (''toLocaleString'', Some 0)]"

definition inheritedProperty :: "string \<Rightarrow> bool" where
  "inheritedProperty p = (map_of objectPrototype p \<noteq> None)"

text \<open>
  Where a call would go on reading and writing one of these built-in objects, which the
  whole process shares and which is no part of the plugin, the model stops and names the
  object: \<open>OnBuiltin p\<close> stands for "the call continues on \<^verbatim>\<open>Object.prototype[p]\<close>", and
  says nothing about what it does there.
\<close>

datatype 'a scoped = Within 'a | OnBuiltin string

fun within :: "'a scoped \<Rightarrow> 'a option" where
  "within (Within x) = Some x"
| "within (OnBuiltin p) = None"

section \<open>The targeting engine: \<^verbatim>\<open>TargetingPlugin\<close>\<close>

subsection \<open>Externals\<close>

text \<open>
  \<^verbatim>\<open>ExternalsElement | ExternalsElement[]\<close>: a falsy value (\<^verbatim>\<open>undefined\<close>), a string, a
  pattern, a mapping (of which only \<^verbatim>\<open>Object.keys\<close> is read), a function, or an array.
\<close>

datatype externals_element =
    ExternalsUndefined
  | ExternalsString string
  | ExternalsRegExp regexp
  | ExternalsObject "string list"
  | ExternalsFunction
  | ExternalsArray "externals_element list"

subsection \<open>Loader chain entries\<close>

text \<open>
  Chain entries are objects compared by identity (\<^verbatim>\<open>indexOf\<close>) and shared through a cache,
  so each carries its reference: \<open>HostRef\<close> for an object the bundler handed in,
  \<open>EngineRef\<close> for one allocated by the engine (\<^verbatim>\<open>{...}\<close>, \<^verbatim>\<open>Object.assign({}, ...)\<close>),
  \<open>BuiltinRef p\<close> for the built-in \<^verbatim>\<open>Object.prototype[p]\<close>. The property \<^verbatim>\<open>loader\<close> is a
  string on every entry of the bundler and of the engine.
\<close>

datatype obj_ref = HostRef nat | EngineRef nat | BuiltinRef string

record loader_entry =
  ref :: obj_ref
  loader :: "string option"
  loader_options :: js_options
  ident :: "string option"

text \<open>
  A built-in of \<^verbatim>\<open>Object.prototype\<close> read as a chain entry: it has none of the properties
  \<^verbatim>\<open>loader\<close>, \<^verbatim>\<open>options\<close>, \<^verbatim>\<open>ident\<close>.
\<close>

definition inheritedMember :: "string \<Rightarrow> loader_entry" where
  "inheritedMember p =
     \<lparr> ref = BuiltinRef p, loader = None, loader_options = OptionsUndefined, ident = None \<rparr>"

subsection \<open>Plugin state\<close>

text \<open>
  The fields of \<^verbatim>\<open>TargetingPlugin\<close>. \<^verbatim>\<open>babelLoaders\<close> and \<^verbatim>\<open>remainingTargets\<close> are the
  mutable ones; \<open>allocated\<close> counts the objects the engine has created, so that the next
  \<open>EngineRef\<close> is fresh.
\<close>

record targeting_plugin =
  targets :: "babel_target list"
  exclude :: "regexp list"
  doNotTarget :: "regexp list"
  externals :: externals_element
  babelLoaderPath :: string
  babelLoaders :: "string \<rightharpoonup> loader_entry"
  remainingTargets :: "string \<rightharpoonup> (string \<rightharpoonup> babel_target list)"
  allocated :: nat

subsection \<open>Blind assignment\<close>

text \<open>
  \<^verbatim>\<open>getBlindTarget(issuer, key)\<close>. Its first test never fires: the field
  \<^verbatim>\<open>remainingTargets\<close> is initialised to an object and only ever reset to one.

  \<^verbatim>\<open>this.remainingTargets[issuer]\<close> is the object stored for the issuer, \<open>byKey\<close>; where
  none is stored and the issuer names an inherited property, it is that built-in, and the
  model stops; otherwise a new object is stored.

  \<^verbatim>\<open>byKey[key]\<close> is the queue stored for the key. Where none is stored and the key names an
  inherited property, it is that built-in: it is truthy, so no queue is stored; a missing
  \<^verbatim>\<open>length\<close> or the length 0 throws the \<open>BlindTargetingError\<close>, and any other length
  passes the test and \<^verbatim>\<open>shift\<close>, which the built-in does not have, is a \<open>TypeError\<close>.
  Otherwise a copy of the targets is stored where no queue is. An array is truthy even
  when empty, so an exhausted queue is never refilled; the head of the queue is removed
  and returned. What was stored persists when the call throws.
\<close>

definition getBlindTarget ::
  "targeting_plugin \<Rightarrow> string \<Rightarrow> string \<Rightarrow>
   ((error + babel_target) \<times> targeting_plugin) scoped" where
  "getBlindTarget this issuer k =
     (case (case remainingTargets this issuer of
              Some m \<Rightarrow> Some m
            | None \<Rightarrow> if inheritedProperty issuer then None else Some Map.empty) of
        None \<Rightarrow> OnBuiltin issuer
      | Some byKey \<Rightarrow>
          Within
            (case (case byKey k of
                     Some q \<Rightarrow> Inr q
                   | None \<Rightarrow>
                       (case map_of objectPrototype k of
                          Some member \<Rightarrow> Inl member
                        | None \<Rightarrow> Inr (targets this))) of
               Inl member \<Rightarrow>
                 (Inl (case member of
                         None \<Rightarrow> BlindTargetingError k
                       | Some n \<Rightarrow> if n = 0 then BlindTargetingError k else TypeError),
                  this\<lparr>remainingTargets := (remainingTargets this)(issuer \<mapsto> byKey)\<rparr>)
             | Inr [] \<Rightarrow>
                 (Inl (BlindTargetingError k),
                  this\<lparr>remainingTargets := (remainingTargets this)(issuer \<mapsto> byKey(k \<mapsto> []))\<rparr>)
             | Inr (t # rest) \<Rightarrow>
                 (Inr t,
                  this\<lparr>remainingTargets :=
                         (remainingTargets this)(issuer \<mapsto> byKey(k \<mapsto> rest))\<rparr>)))"

text \<open>
  A run of blind assignments, one per \<open>(issuer, key)\<close> of the list, in order, by a caller
  that goes on after a failure; the results are collected.
\<close>

fun getBlindTargets ::
  "targeting_plugin \<Rightarrow> (string \<times> string) list \<Rightarrow>
   ((error + babel_target) list \<times> targeting_plugin) scoped" where
  "getBlindTargets this [] = Within ([], this)"
| "getBlindTargets this ((issuer, k) # calls) =
     (case getBlindTarget this issuer k of
        OnBuiltin p \<Rightarrow> OnBuiltin p
      | Within (r, this') \<Rightarrow>
          (case getBlindTargets this' calls of
             OnBuiltin p \<Rightarrow> OnBuiltin p
           | Within (rs, this'') \<Rightarrow> Within (r # rs, this'')))"

text \<open>The queue that the next blind assignment for \<open>(issuer, key)\<close> will read.\<close>

definition pending :: "targeting_plugin \<Rightarrow> string \<Rightarrow> string \<Rightarrow> babel_target list" where
  "pending this issuer k =
     (case remainingTargets this issuer of
        None \<Rightarrow> targets this
      | Some m \<Rightarrow> (case m k of None \<Rightarrow> targets this | Some q \<Rightarrow> q))"

text \<open>The results of those calls of a run that were made for \<open>(issuer, key)\<close>.\<close>

definition resultsFor ::
  "string \<times> string \<Rightarrow> (string \<times> string) list \<Rightarrow> (error + babel_target) list \<Rightarrow> (error + babel_target) list" where
  "resultsFor p calls rs = map snd (filter (\<lambda>cr. fst cr = p) (zip calls rs))"

subsection \<open>Entry dependencies\<close>

text \<open>
  \<^verbatim>\<open>BabelTargetSingleEntryDependency\<close>. \<open>request\<close> is the field that the constructor of
  \<^verbatim>\<open>ModuleDependency\<close> sets from the argument of \<^verbatim>\<open>super\<close>. The constant
  \<^verbatim>\<open>DEV_SERVER_CLIENT\<close> is declared in \<^verbatim>\<open>constants.ts\<close>; here it is the first
  parameter. \<^verbatim>\<open>loc\<close> is optional; \<^verbatim>\<open>!loc\<close> holds for \<^verbatim>\<open>undefined\<close> and for the empty string.
\<close>

record babel_target_single_entry_dependency =
  sed_babelTarget :: babel_target
  sed_request :: string
  originalName :: string
  name :: string
  loc :: string

definition BabelTargetSingleEntryDependency ::
  "string \<Rightarrow> babel_target \<Rightarrow> string \<Rightarrow> string \<Rightarrow> string option \<Rightarrow>
   babel_target_single_entry_dependency" where
  "BabelTargetSingleEntryDependency DEV_SERVER_CLIENT babelTarget request origName loc0 =
     (let this_request =
            (if prefix DEV_SERVER_CLIENT request then request
             else getTargetedRequest babelTarget request)
      in \<lparr> sed_babelTarget = babelTarget,
           sed_request = this_request,
           originalName = origName,
           name = getTargetedAssetName babelTarget origName,
           loc = (case loc0 of
                    None \<Rightarrow> this_request @ '':'' @ key babelTarget
                  | Some l \<Rightarrow> if l = [] then this_request @ '':'' @ key babelTarget
                             else l @ '':'' @ key babelTarget) \<rparr>)"

subsection \<open>Construction\<close>

text \<open>\<^verbatim>\<open>NOT_TARGETED = [ /\.s?css$/ ]\<close>: the strings that end in \<^verbatim>\<open>.css\<close> or \<^verbatim>\<open>.scss\<close>.\<close>

definition NOT_TARGETED :: "regexp list" where
  "NOT_TARGETED = [RegExp (\<lambda>s. suffix ''.css'' s \<or> suffix ''.scss'' s)]"

text \<open>
  The constructor. No statement of it throws, so the result is always \<open>Inr\<close>; the sum
  type is there to say so. The first parameter is the value of
  \<^verbatim>\<open>require.resolve('babel-loader')\<close>; \<^verbatim>\<open>doNotTarget || []\<close> makes the third optional.
\<close>

definition TargetingPlugin ::
  "string \<Rightarrow> babel_target list \<Rightarrow> regexp list \<Rightarrow> regexp list option \<Rightarrow> externals_element \<Rightarrow>
   error + targeting_plugin" where
  "TargetingPlugin resolved ts excl dnt exts =
     Inr \<lparr> targets = ts,
           exclude = excl,
           doNotTarget = NOT_TARGETED @ (case dnt of None \<Rightarrow> [] | Some ps \<Rightarrow> ps),
           externals = exts,
           babelLoaderPath = resolved,
           babelLoaders = Map.empty,
           remainingTargets = Map.empty,
           allocated = 0 \<rparr>"

subsection \<open>Which requests are targeted\<close>

text \<open>A measure for the recursion of \<^verbatim>\<open>isExternalRequest\<close>: a mapping counts its keys.\<close>

fun externals_weight :: "externals_element \<Rightarrow> nat" where
  "externals_weight (ExternalsArray exts) = Suc (sum_list (map externals_weight exts))"
| "externals_weight (ExternalsObject keys) = Suc (Suc (length keys))"
| "externals_weight _ = 1"

text \<open>
  \<^verbatim>\<open>isExternalRequest(context, request, externals)\<close>, in the order of its tests: falsy
  (also the empty string), array (the \<^verbatim>\<open>for\<close> loop is \<open>isExternalRequest_loop\<close>: it
  returns at the first element that matches and throws where an element throws), function,
  string, pattern, mapping.
\<close>

function isExternalRequest :: "'c \<Rightarrow> string \<Rightarrow> externals_element \<Rightarrow> error + bool"
  and isExternalRequest_loop :: "'c \<Rightarrow> string \<Rightarrow> externals_element list \<Rightarrow> error + bool" where
  "isExternalRequest context request ExternalsUndefined = Inr False"
| "isExternalRequest context request (ExternalsArray exts) =
     isExternalRequest_loop context request exts"
| "isExternalRequest context request ExternalsFunction =
     Inl (Error ''Using an ExternalsFunctionElement is not supported'')"
| "isExternalRequest context request (ExternalsString s) =
     (if s = [] then Inr False else Inr (request = s))"
| "isExternalRequest context request (ExternalsRegExp r) = Inr (test r request)"
| "isExternalRequest context request (ExternalsObject keys) =
     isExternalRequest context request (ExternalsArray (map ExternalsString keys))"
| "isExternalRequest_loop context request [] = Inr False"
| "isExternalRequest_loop context request (ext # exts) =
     (case isExternalRequest context request ext of
        Inl e \<Rightarrow> Inl e
      | Inr b \<Rightarrow> if b then Inr True else isExternalRequest_loop context request exts)"
  by pat_completeness auto
termination
proof -
  have pos: "0 < externals_weight ext" for ext
    by (cases ext) simp_all
  have strings: "sum_list (map (externals_weight \<circ> ExternalsString) keys) = length keys" for keys
    by (induction keys) simp_all
  show ?thesis
    by (relation "measure (\<lambda>x. case x of
            Inl (c, r, ext) \<Rightarrow> 2 * externals_weight ext
          | Inr (c, r, exts) \<Rightarrow> Suc (2 * sum_list (map externals_weight exts)))")
       (auto simp add: strings pos)
qed

text \<open>\<^verbatim>\<open>isTargetedRequest(context, request)\<close>.\<close>

definition isTargetedRequest :: "targeting_plugin \<Rightarrow> 'c \<Rightarrow> string \<Rightarrow> error + bool" where
  "isTargetedRequest this context request =
     (if find (\<lambda>entry. test entry request) (doNotTarget this) \<noteq> None then Inr False
      else case isExternalRequest context request (externals this) of
             Inl e \<Rightarrow> Inl e
           | Inr b \<Rightarrow> Inr (\<not> b))"

subsection \<open>Modules and dependencies\<close>

text \<open>
  \<^verbatim>\<open>module.options\<close> with the field the engine writes, and the module that a dependency
  names as its origin, as far as it is read.
\<close>

record module_options =
  babelTarget :: "babel_target option"

record origin_module =
  om_options :: "module_options option"

text \<open>
  A dependency: \<^verbatim>\<open>dep.request\<close> (absent on dependencies that are not module references),
  \<^verbatim>\<open>dep.babelTarget\<close>, \<^verbatim>\<open>dep.originModule\<close>, and \<^verbatim>\<open>dep.block.groupOptions.name\<close>
  (\<open>None\<close> when any link of that path is falsy).
\<close>

record dependency =
  dep_request :: "string option"
  dep_babelTarget :: "babel_target option"
  dep_originModule :: "origin_module option"
  dep_groupName :: "string option"

text \<open>
  A module as the \<^verbatim>\<open>module\<close> hook sees it. \<^verbatim>\<open>addDependency\<close> is the method currently
  installed on the object; the part of the module it acts on is the dependency list, which
  it takes and returns.
\<close>

record normal_module =
  module_request :: string
  module_options :: "module_options option"
  module_dependencies :: "dependency list"
  addDependency :: "dependency \<Rightarrow> dependency list \<Rightarrow> error + dependency list"

text \<open>\<^verbatim>\<open>targetDependency(dep, babelTarget)\<close>: the dependency is returned as the call leaves it.\<close>

definition targetDependency ::
  "targeting_plugin \<Rightarrow> dependency \<Rightarrow> babel_target \<Rightarrow> error + dependency" where
  "targetDependency this dep target =
     (case dep_request dep of
        None \<Rightarrow> Inr dep
      | Some r \<Rightarrow>
          if r = [] then Inr dep
          else (case isTargetedRequest this dep r of
                  Inl e \<Rightarrow> Inl e
                | Inr eligible \<Rightarrow>
                    if \<not> eligible then Inr dep
                    else Inr (dep\<lparr>dep_request := Some (getTargetedRequest target r)\<rparr>)))"

text \<open>
  \<^verbatim>\<open>targetModule(module)\<close>. The two early returns leave the module as it is. Otherwise the
  request is rewritten, the target is recorded, and \<^verbatim>\<open>addDependency\<close> is replaced by a
  closure that runs \<^verbatim>\<open>targetDependency\<close> before the method it replaces.
\<close>

definition targetModule :: "targeting_plugin \<Rightarrow> normal_module \<Rightarrow> error + normal_module" where
  "targetModule this module =
     (case isTargetedRequest this module (module_request module) of
        Inl e \<Rightarrow> Inl e
      | Inr eligible \<Rightarrow>
          if \<not> eligible then Inr module
          else (case getTargetFromTag (module_request module) (targets this) of
                  None \<Rightarrow> Inr module
                | Some target \<Rightarrow>
                    Inr (module
                      \<lparr> module_request := getTargetedRequest target (module_request module),
                        module_options :=
                          Some ((case module_options module of
                                   None \<Rightarrow> \<lparr>babelTarget = None\<rparr>
                                 | Some opts \<Rightarrow> opts)\<lparr>babelTarget := Some target\<rparr>),
                        addDependency :=
                          (\<lambda>dep deps.
                             case targetDependency this dep target of
                               Inl e \<Rightarrow> Inl e
                             | Inr dep' \<Rightarrow> addDependency module dep' deps) \<rparr>)))"

subsection \<open>The resolve context\<close>

text \<open>
  The package manifest (\<^verbatim>\<open>descriptionFileData\<close>): \<^verbatim>\<open>main\<close>, and \<^verbatim>\<open>browser\<close> in its
  forms. A value of the mapping form is a path or \<^verbatim>\<open>false\<close>.
\<close>

datatype browser_value = BrowserPath string | BrowserFalse

datatype browser_field =
    BrowserUndefined
  | BrowserString string
  | BrowserArray "string list"
  | BrowserObject "(string \<times> browser_value) list"

record package_json =
  pkg_main :: "string option"
  pkg_browser :: browser_field

record context_info =
  ci_babelTarget :: "babel_target option"

record resolve_data_context =
  rdc_issuer :: string
  rdc_babelTarget :: "babel_target option"

record resource_resolve_data =
  descriptionFileRoot :: string
  descriptionFileData :: "package_json option"
  rrd_context :: "resolve_data_context option"

text \<open>
  The object handed to the \<^verbatim>\<open>afterResolve\<close> hook. The bundler sets \<^verbatim>\<open>request\<close>,
  \<^verbatim>\<open>resource\<close>, \<^verbatim>\<open>loaders\<close>, \<^verbatim>\<open>dependencies\<close>, \<^verbatim>\<open>contextInfo\<close> and
  \<^verbatim>\<open>resourceResolveData\<close>; \<open>rc_resolve\<close> is the property \<^verbatim>\<open>resolve\<close>, which the source
  reads and the bundler does not set (\<open>None\<close> is \<^verbatim>\<open>undefined\<close>).
\<close>

record resolve_context =
  rc_request :: string
  rc_resource :: string
  rc_resolve :: "string option"
  rc_loaders :: "loader_entry list"
  rc_dependencies :: "dependency list"
  rc_contextInfo :: "context_info option"
  rc_resourceResolveData :: "resource_resolve_data option"

text \<open>
  What the engine imports from elsewhere and is taken as a parameter: the pattern lists of
  \<^verbatim>\<open>excluded.packages.ts\<close> and Node's \<^verbatim>\<open>path.resolve\<close> on two strings.
\<close>

record engine_imports =
  STANDARD_EXCLUDED :: "regexp list"
  KNOWN_EXCLUDED :: "regexp list"
  path_resolve :: "string \<Rightarrow> string \<Rightarrow> string"

subsection \<open>The exclusion policy\<close>

text \<open>
  \<^verbatim>\<open>values.find(entry => resource === path.resolve(pkgRoot, entry))\<close>, used as a condition:
  \<^verbatim>\<open>path.resolve\<close> throws on a value that is not a string, and the entry found counts
  as true unless it is the empty string.
\<close>

fun findsEntry ::
  "(string \<Rightarrow> string \<Rightarrow> string) \<Rightarrow> string \<Rightarrow> string \<Rightarrow> browser_value list \<Rightarrow> error + bool" where
  "findsEntry resolve resource pkgRoot [] = Inr False"
| "findsEntry resolve resource pkgRoot (BrowserFalse # entries) = Inl TypeError"
| "findsEntry resolve resource pkgRoot (BrowserPath entry # entries) =
     (if resource = resolve pkgRoot entry then Inr (entry \<noteq> [])
      else findsEntry resolve resource pkgRoot entries)"

text \<open>
  \<^verbatim>\<open>Object.values(pkg.browser)\<close>: the characters of a string, the elements of an array,
  the values of a mapping.
\<close>

fun objectValues :: "browser_field \<Rightarrow> browser_value list" where
  "objectValues BrowserUndefined = []"
| "objectValues (BrowserString s) = map (\<lambda>c. BrowserPath [c]) s"
| "objectValues (BrowserArray entries) = map BrowserPath entries"
| "objectValues (BrowserObject kvs) = map snd kvs"

text \<open>
  The \<^verbatim>\<open>if (pkg.browser)\<close> block. Its third test is on \<^verbatim>\<open>typeof(pkg.browser === 'object')\<close>,
  which is the non-empty string \<^verbatim>\<open>"boolean"\<close>, so \<^verbatim>\<open>Object.values\<close> is searched for every
  truthy form.
\<close>

definition browserExcludes ::
  "(string \<Rightarrow> string \<Rightarrow> string) \<Rightarrow> string \<Rightarrow> string \<Rightarrow> browser_field \<Rightarrow> error + bool" where
  "browserExcludes resolve resource pkgRoot browser =
     (case browser of
        BrowserUndefined \<Rightarrow> Inr False
      | BrowserString s \<Rightarrow>
          if s = [] then Inr False
          else if resource = resolve pkgRoot s then Inr True
          else findsEntry resolve resource pkgRoot (objectValues browser)
      | BrowserArray entries \<Rightarrow>
          (case findsEntry resolve resource pkgRoot (map BrowserPath entries) of
             Inl e \<Rightarrow> Inl e
           | Inr found \<Rightarrow>
               if found then Inr True
               else findsEntry resolve resource pkgRoot (objectValues browser))
      | BrowserObject kvs \<Rightarrow> findsEntry resolve resource pkgRoot (objectValues browser))"

text \<open>
  \<^verbatim>\<open>isTranspiledRequest(resolveContext)\<close>. The first two pattern lists are tested on
  \<^verbatim>\<open>resolveContext.resource\<close>, the caller's list on \<^verbatim>\<open>resolveContext.resolve\<close>;
  \<^verbatim>\<open>test\<close> turns \<^verbatim>\<open>undefined\<close> into the string \<^verbatim>\<open>undefined\<close>. Reading a field of an absent
  \<^verbatim>\<open>resourceResolveData\<close> or manifest is a \<open>TypeError\<close>.
\<close>

definition isTranspiledRequest ::
  "engine_imports \<Rightarrow> targeting_plugin \<Rightarrow> resolve_context \<Rightarrow> error + bool" where
  "isTranspiledRequest imports this resolveContext =
     (if find (\<lambda>pattern. test pattern (rc_resource resolveContext)) (STANDARD_EXCLUDED imports) \<noteq> None
      then Inr False
      else if find (\<lambda>pattern. test pattern (rc_resource resolveContext)) (KNOWN_EXCLUDED imports) \<noteq> None
      then Inr False
      else if find (\<lambda>pattern. test pattern
                      (case rc_resolve resolveContext of None \<Rightarrow> ''undefined'' | Some s \<Rightarrow> s))
                (exclude this) \<noteq> None
      then Inr False
      else (case rc_resourceResolveData resolveContext of
              None \<Rightarrow> Inl TypeError
            | Some rrd \<Rightarrow>
                (case descriptionFileData rrd of
                   None \<Rightarrow> Inl TypeError
                 | Some pkg \<Rightarrow>
                     if (case pkg_main pkg of
                           None \<Rightarrow> False
                         | Some m \<Rightarrow> m \<noteq> [] \<and>
                             rc_resource resolveContext =
                               path_resolve imports (descriptionFileRoot rrd) m)
                     then Inr False
                     else (case browserExcludes (path_resolve imports) (rc_resource resolveContext)
                                  (descriptionFileRoot rrd) (pkg_browser pkg) of
                             Inl e \<Rightarrow> Inl e
                           | Inr excluded \<Rightarrow> Inr (\<not> excluded)))))"

subsection \<open>The target of a resolve context\<close>

text \<open>
  Modelled from the spec: \<^verbatim>\<open>BabelTarget.findTarget(module)\<close>, of \<^verbatim>\<open>babel.target.ts\<close>, gives
  "the target recorded on its originating module".
\<close>

definition findTarget :: "origin_module \<Rightarrow> babel_target option" where
  "findTarget m = (case om_options m of None \<Rightarrow> None | Some opts \<Rightarrow> babelTarget opts)"

text \<open>The \<^verbatim>\<open>for\<close> loop of \<^verbatim>\<open>getTargetFromContext\<close> over the dependencies.\<close>

fun getTargetFromDependencies :: "dependency list \<Rightarrow> babel_target option" where
  "getTargetFromDependencies [] = None"
| "getTargetFromDependencies (dep # deps) =
     (case dep_babelTarget dep of
        Some t \<Rightarrow> Some t
      | None \<Rightarrow>
          (case dep_originModule dep of
             None \<Rightarrow> getTargetFromDependencies deps
           | Some m \<Rightarrow>
               (case findTarget m of
                  Some t \<Rightarrow> Some t
                | None \<Rightarrow> getTargetFromDependencies deps)))"

definition getTargetFromContext :: "resolve_context \<Rightarrow> babel_target option" where
  "getTargetFromContext context =
     (case (case rc_contextInfo context of None \<Rightarrow> None | Some ci \<Rightarrow> ci_babelTarget ci) of
        Some t \<Rightarrow> Some t
      | None \<Rightarrow>
          (case (case rc_resourceResolveData context of
                   None \<Rightarrow> None
                 | Some rrd \<Rightarrow>
                     (case rrd_context rrd of None \<Rightarrow> None | Some c \<Rightarrow> rdc_babelTarget c)) of
             Some t \<Rightarrow> Some t
           | None \<Rightarrow> getTargetFromDependencies (rc_dependencies context)))"

subsection \<open>Rewriting the loader chain\<close>

text \<open>
  \<^verbatim>\<open>this.babelLoaders[key]\<close>: the object stored for the key, or else the built-in that
  \<^verbatim>\<open>Object.prototype\<close> has under that name, or else \<^verbatim>\<open>undefined\<close>.
\<close>

definition cachedLoader :: "(string \<rightharpoonup> loader_entry) \<Rightarrow> string \<Rightarrow> loader_entry option" where
  "cachedLoader cache k =
     (case cache k of
        Some stored \<Rightarrow> Some stored
      | None \<Rightarrow> if inheritedProperty k then Some (inheritedMember k) else None)"

text \<open>
  \<^verbatim>\<open>getTargetedBabelLoader(loader, babelTarget)\<close>: where \<^verbatim>\<open>this.babelLoaders[key]\<close> is
  \<^verbatim>\<open>undefined\<close>, a new object that copies \<^verbatim>\<open>loader\<close> and overrides \<^verbatim>\<open>loader\<close> and
  \<^verbatim>\<open>options\<close> is stored for the key; every call returns what \<^verbatim>\<open>this.babelLoaders[key]\<close>
  then is.
\<close>

definition getTargetedBabelLoader ::
  "targeting_plugin \<Rightarrow> loader_entry \<Rightarrow> babel_target \<Rightarrow> loader_entry \<times> targeting_plugin" where
  "getTargetedBabelLoader this l target =
     (case cachedLoader (babelLoaders this) (key target) of
        Some cached \<Rightarrow> (cached, this)
      | None \<Rightarrow>
          (let created = l\<lparr> ref := EngineRef (allocated this),
                            loader := Some (babelLoaderPath this),
                            loader_options := options target \<rparr>
           in (created, this\<lparr> babelLoaders := (babelLoaders this)(key target \<mapsto> created),
                               allocated := Suc (allocated this) \<rparr>)))"

text \<open>\<^verbatim>\<open>array.indexOf(x)\<close> on objects: the first position holding the same object, or -1.\<close>

fun indexOf :: "loader_entry list \<Rightarrow> loader_entry \<Rightarrow> int" where
  "indexOf [] x = -1"
| "indexOf (y # ys) x =
     (if ref y = ref x then 0
      else (let i = indexOf ys x in if i < 0 then -1 else i + 1))"

text \<open>
  \<^verbatim>\<open>array.splice(index, 1, ...items)\<close>: a negative index counts from the end, the start is
  clamped to the array, and at most one element is deleted.
\<close>

definition splice :: "int \<Rightarrow> 'a list \<Rightarrow> 'a list \<Rightarrow> 'a list" where
  "splice index items xs =
     (let len = int (length xs);
          start = nat (if index < 0 then max (len + index) 0 else min index len)
      in take start xs @ items @ drop (Suc start) xs)"

text \<open>
  The marker test of \<^verbatim>\<open>afterResolve\<close>:
  \<^verbatim>\<open>loaderInfo.options && loaderInfo.options.isBabelMultiTargetLoader\<close>.
\<close>

definition isMarker :: "loader_entry \<Rightarrow> bool" where
  "isMarker loaderInfo =
     (case loader_options loaderInfo of
        OptionsUndefined \<Rightarrow> False
      | OptionsObject flag _ _ \<Rightarrow> flag)"

text \<open>
  The local \<^verbatim>\<open>babelTarget\<close> of \<^verbatim>\<open>replaceLoaders\<close>:
  \<^verbatim>\<open>resourceResolveData && isTranspiledRequest(resolveContext) && getTargetFromContext(resolveContext)\<close>.
\<close>

definition replaceLoaders_babelTarget ::
  "engine_imports \<Rightarrow> targeting_plugin \<Rightarrow> resolve_context \<Rightarrow> error + babel_target option" where
  "replaceLoaders_babelTarget imports this resolveContext =
     (case rc_resourceResolveData resolveContext of
        None \<Rightarrow> Inr None
      | Some rrd \<Rightarrow>
          (case isTranspiledRequest imports this resolveContext of
             Inl e \<Rightarrow> Inl e
           | Inr transpiled \<Rightarrow>
               if transpiled then Inr (getTargetFromContext resolveContext) else Inr None))"

text \<open>
  The \<^verbatim>\<open>forEach\<close> of \<^verbatim>\<open>replaceLoaders\<close>, on the chain \<^verbatim>\<open>resolveContext.loaders\<close> and the
  plugin. \<^verbatim>\<open>effectiveLoader\<close> is a new object each time round.
\<close>

fun replaceLoaders_forEach ::
  "targeting_plugin \<Rightarrow> babel_target option \<Rightarrow> loader_entry list \<Rightarrow> loader_entry list \<Rightarrow>
   error + loader_entry list \<times> targeting_plugin" where
  "replaceLoaders_forEach this target [] chain = Inr (chain, this)"
| "replaceLoaders_forEach this target (l # ls) chain =
     (let index = indexOf chain l in
      case target of
        None \<Rightarrow> replaceLoaders_forEach this target ls (splice index [] chain)
      | Some t \<Rightarrow>
          (case loader_options l of
             OptionsUndefined \<Rightarrow> Inl TypeError
           | OptionsObject flag inner rest \<Rightarrow>
               (let effectiveLoader = \<lparr> ref = EngineRef (allocated this),
                                          loader = loader l,
                                          loader_options = inner,
                                          ident = ident l \<rparr>;
                    this1 = this\<lparr>allocated := Suc (allocated this)\<rparr>
                in if loader l = Some (babelLoaderPath this)
                   then (case getTargetedBabelLoader this1 effectiveLoader t of
                           (targeted, this2) \<Rightarrow>
                             replaceLoaders_forEach this2 target ls (splice index [targeted] chain))
                   else replaceLoaders_forEach this1 target ls
                          (splice index [effectiveLoader] chain))))"

text \<open>\<^verbatim>\<open>replaceLoaders(resolveContext, loaders)\<close>.\<close>

definition replaceLoaders ::
  "engine_imports \<Rightarrow> targeting_plugin \<Rightarrow> resolve_context \<Rightarrow> loader_entry list \<Rightarrow>
   error + resolve_context \<times> targeting_plugin" where
  "replaceLoaders imports this resolveContext loaders =
     (case replaceLoaders_babelTarget imports this resolveContext of
        Inl e \<Rightarrow> Inl e
      | Inr target \<Rightarrow>
          (case replaceLoaders_forEach this target loaders (rc_loaders resolveContext) of
             Inl e \<Rightarrow> Inl e
           | Inr (chain, this') \<Rightarrow> Inr (resolveContext\<lparr>rc_loaders := chain\<rparr>, this')))"

text \<open>The loaders that \<^verbatim>\<open>afterResolve\<close> hands to \<^verbatim>\<open>replaceLoaders\<close>.\<close>

definition markerLoaders :: "resolve_context \<Rightarrow> loader_entry list" where
  "markerLoaders resolveContext = filter isMarker (rc_loaders resolveContext)"

subsection \<open>The target of a module after resolution\<close>

text \<open>\<^verbatim>\<open>targetChunkNames(resolveContext, babelTarget)\<close>, on the dependencies.\<close>

definition targetChunkNames :: "dependency list \<Rightarrow> babel_target \<Rightarrow> dependency list" where
  "targetChunkNames deps target =
     map (\<lambda>dep. case dep_groupName dep of
                  None \<Rightarrow> dep
                | Some n \<Rightarrow> if n = [] then dep
                           else dep\<lparr>dep_groupName := Some (getTargetedAssetName target n)\<rparr>)
         deps"

text \<open>
  \<^verbatim>\<open>dependencies.forEach(dep => this.targetDependency(dep, babelTarget))\<close>: it ends where
  \<^verbatim>\<open>targetDependency\<close> throws.
\<close>

fun targetDependencies ::
  "targeting_plugin \<Rightarrow> babel_target \<Rightarrow> dependency list \<Rightarrow> error + dependency list" where
  "targetDependencies this target [] = Inr []"
| "targetDependencies this target (dep # deps) =
     (case targetDependency this dep target of
        Inl e \<Rightarrow> Inl e
      | Inr dep' \<Rightarrow>
          (case targetDependencies this target deps of
             Inl e \<Rightarrow> Inl e
           | Inr deps' \<Rightarrow> Inr (dep' # deps')))"

text \<open>
  \<^verbatim>\<open>checkResolveTarget(resolveContext, hasLoader)\<close>. The three tests of its guard are made
  in order. A tag on the request only renames the chunks. Otherwise the target comes from
  the context, or else from a blind assignment by the issuer and the request; then the
  chunks are renamed and the request and a non-empty resource are tagged.
\<close>

definition checkResolveTarget ::
  "engine_imports \<Rightarrow> targeting_plugin \<Rightarrow> resolve_context \<Rightarrow> bool \<Rightarrow>
   (error + resolve_context \<times> targeting_plugin) scoped" where
  "checkResolveTarget imports this resolveContext hasLoader =
     (case isTargetedRequest this resolveContext (rc_request resolveContext) of
        Inl e \<Rightarrow> Within (Inl e)
      | Inr targeted \<Rightarrow>
          if \<not> targeted then Within (Inr (resolveContext, this))
          else (case isTranspiledRequest imports this resolveContext of
                  Inl e \<Rightarrow> Within (Inl e)
                | Inr transpiled \<Rightarrow>
                    if \<not> transpiled \<or> \<not> hasLoader then Within (Inr (resolveContext, this))
                    else (case getTargetFromTag (rc_request resolveContext) (targets this) of
                            Some t \<Rightarrow>
                              Within
                                (Inr (resolveContext
                                        \<lparr>rc_dependencies :=
                                           targetChunkNames (rc_dependencies resolveContext) t\<rparr>,
                                      this))
                          | None \<Rightarrow>
                              (case (case getTargetFromContext resolveContext of
                                       Some t \<Rightarrow>
                                         (case targetDependencies this t
                                                 (rc_dependencies resolveContext) of
                                            Inl e \<Rightarrow> Within (Inl e)
                                          | Inr deps \<Rightarrow> Within (Inr (t, deps, this)))
                                     | None \<Rightarrow>
                                         (case rc_resourceResolveData resolveContext of
                                            None \<Rightarrow> Within (Inl TypeError)
                                          | Some rrd \<Rightarrow>
                                              (case rrd_context rrd of
                                                 None \<Rightarrow> Within (Inl TypeError)
                                               | Some c \<Rightarrow>
                                                   (case getBlindTarget this (rdc_issuer c)
                                                           (rc_request resolveContext) of
                                                      OnBuiltin p \<Rightarrow> OnBuiltin p
                                                    | Within (Inl e, this') \<Rightarrow> Within (Inl e)
                                                    | Within (Inr t, this') \<Rightarrow>
                                                        Within
                                                          (Inr (t,
                                                                rc_dependencies resolveContext,
                                                                this')))))) of
                                 OnBuiltin p \<Rightarrow> OnBuiltin p
                               | Within (Inl e) \<Rightarrow> Within (Inl e)
                               | Within (Inr (t, deps, this')) \<Rightarrow>
                                   Within
                                     (Inr (resolveContext
                                             \<lparr>rc_dependencies := targetChunkNames deps t,
                                               rc_request :=
                                                 getTargetedRequest t (rc_request resolveContext),
                                               rc_resource :=
                                                 (if rc_resource resolveContext = [] then []
                                                  else getTargetedRequest t
                                                         (rc_resource resolveContext))\<rparr>,
                                           this'))))))"


section \<open>The orchestrator: \<^verbatim>\<open>WebpackBabelMultiTargetPlugin\<close>\<close>

definition CHILD_COMPILER_PREFIX :: string where
  "CHILD_COMPILER_PREFIX = ''webpack-babel-multi-target-compiler-''"

definition BABEL_LOADER :: string where
  "BABEL_LOADER = ''babel-loader''"

definition FILTERED_PLUGINS :: "string list" where
  "FILTERED_PLUGINS = [''HardSourceWebpackPlugin'', ''HtmlWebpackPlugin'']"

subsection \<open>Plugins and target options\<close>

text \<open>
  A plugin instance: its identity (\<^verbatim>\<open>!==\<close> and \<^verbatim>\<open>includes\<close> compare objects by
  reference), \<^verbatim>\<open>plugin.constructor.name\<close>, and whether \<^verbatim>\<open>plugin.constructor\<close> is the
  class \<^verbatim>\<open>WebpackBabelMultiTargetPlugin\<close>.
\<close>

record plugin =
  plugin_ref :: nat
  constructor_name :: string
  constructed_by_this_class :: bool

definition samePlugin :: "plugin \<Rightarrow> plugin \<Rightarrow> bool" where
  "samePlugin p q = (plugin_ref p = plugin_ref q)"

text \<open>
  \<^verbatim>\<open>options.plugins\<close>: falsy, a function (modelled by the array it returns), or a truthy
  value that is not a function.
\<close>

datatype plugins_option = PluginsUndefined | PluginsFunction "plugin list" | PluginsOther

text \<open>
  A \<^verbatim>\<open>WebpackBabelMultiTargetOptions\<close> object. \<^verbatim>\<open>browserProfile\<close> and \<^verbatim>\<open>key\<close> are strings
  when present; \<open>falsy\<close> is the test \<^verbatim>\<open>!x\<close> on such a property.
\<close>

record multi_target_options =
  browserProfile :: "string option"
  mto_key :: "string option"
  mto_options :: js_options
  mto_plugins :: plugins_option

definition falsy :: "string option \<Rightarrow> bool" where
  "falsy x = (case x of None \<Rightarrow> True | Some s \<Rightarrow> s = [])"

subsection \<open>Construction\<close>

text \<open>
  The \<^verbatim>\<open>forEach\<close> of the constructor: it throws at the first options object that fails a
  check, and sets a missing key on the objects it accepts.
\<close>

fun checkOptions :: "multi_target_options list \<Rightarrow> error + multi_target_options list" where
  "checkOptions [] = Inr []"
| "checkOptions (opts # rest) =
     (if falsy (browserProfile opts)
      then Inl (Error ''WebpackBabelMultiTargetOptions.browserProfile is required'')
      else if mto_plugins opts = PluginsOther
      then Inl (Error ''WebpackBabelMultiTargetOptions.plugins must be a function'')
      else (case checkOptions rest of
              Inl e \<Rightarrow> Inl e
            | Inr rest' \<Rightarrow>
                Inr ((if falsy (mto_key opts) then opts\<lparr>mto_key := browserProfile opts\<rparr> else opts)
                     # rest')))"

record webpack_babel_multi_target_plugin =
  multiTargetOptions :: "multi_target_options list"

definition WebpackBabelMultiTargetPlugin ::
  "multi_target_options list \<Rightarrow> error + webpack_babel_multi_target_plugin" where
  "WebpackBabelMultiTargetPlugin opts =
     (if opts = []
      then Inl (Error ''Must provide at least one WebpackBabelMultiTargetOptions object'')
      else (case checkOptions opts of
              Inl e \<Rightarrow> Inl e
            | Inr opts' \<Rightarrow> Inr \<lparr> multiTargetOptions = opts' \<rparr>))"

subsection \<open>Child compilers\<close>

text \<open>
  A rule of \<^verbatim>\<open>module.rules\<close>, or an element of a \<^verbatim>\<open>use\<close> array (which may be a plain
  string), with \<^verbatim>\<open>loader\<close>, \<^verbatim>\<open>use\<close> and \<^verbatim>\<open>options\<close>.
\<close>

datatype rule =
    StringEntry string
  | Rule (rule_loader: "string option") (rule_use: rule_use) (rule_options: js_options)
and rule_use =
    UseUndefined
  | UseString string
  | UseObject rule
  | UseArray "rule list"

text \<open>
  \<^verbatim>\<open>findBabelRules(rules)\<close>. A string has neither \<^verbatim>\<open>loader\<close> nor \<^verbatim>\<open>use\<close>. The recursive
  call on \<^verbatim>\<open>rule.use\<close> finds something only in an array: the loop over a string visits its
  characters, and an object has no \<^verbatim>\<open>length\<close>.
\<close>

fun findBabelRules :: "rule list \<Rightarrow> rule list" where
  "findBabelRules [] = []"
| "findBabelRules (StringEntry s # rules) = findBabelRules rules"
| "findBabelRules (Rule l u opts # rules) =
     (if l = Some BABEL_LOADER \<or> u = UseString BABEL_LOADER
      then Rule l u opts # findBabelRules rules
      else (case u of
              UseArray used \<Rightarrow> findBabelRules used @ findBabelRules rules
            | _ \<Rightarrow> findBabelRules rules))"

record compiler_options =
  co_plugins :: "plugin list"
  co_rules :: "rule list"

text \<open>
  What \<^verbatim>\<open>apply\<close> keeps of a child compiler: its name, the plugins of its configuration,
  and the babel rules of its configuration after their options were reassigned.
\<close>

record child_compiler =
  cc_name :: string
  cc_plugins :: "plugin list"
  cc_babelRules :: "rule list"

text \<open>
  \<^verbatim>\<open>config.plugins\<close> of a child: the array returned by the factory, or the parent's plugins
  (\<^verbatim>\<open>merge({}, compiler.options)\<close> copies the array and keeps the instances), filtered.
  A truthy \<^verbatim>\<open>plugins\<close> that is no function cannot be called; \<open>createChildCompiler\<close>
  raises the \<open>TypeError\<close> before this list is built.
\<close>

definition childPlugins :: "plugin \<Rightarrow> compiler_options \<Rightarrow> multi_target_options \<Rightarrow> plugin list" where
  "childPlugins pluginSelf compilerOptions multiTargetOption =
     filter (\<lambda>p. \<not> samePlugin p pluginSelf \<and>
                 \<not> constructed_by_this_class p \<and>
                 constructor_name p \<notin> set FILTERED_PLUGINS)
       (case mto_plugins multiTargetOption of
          PluginsFunction made \<Rightarrow> made
        | _ \<Rightarrow> co_plugins compilerOptions)"

text \<open>
  A string interpolated into a template: \<^verbatim>\<open>undefined\<close> prints as \<^verbatim>\<open>undefined\<close>.
\<close>

definition interpolate :: "string option \<Rightarrow> string" where
  "interpolate x = (case x of None \<Rightarrow> ''undefined'' | Some s \<Rightarrow> s)"

text \<open>The message of the error thrown when a plugin instance is found in both configurations.\<close>

definition duplicationMessage :: string where
  "duplicationMessage = ''Same plugin instance referenced from both original and child compilations. Use the plugins option to specify a plugin configuration factory and move all plugin instantiations into it.''"

text \<open>
  The callback of \<^verbatim>\<open>multiTargetOptions.map\<close> in \<^verbatim>\<open>apply\<close>, up to the creation of the
  child compiler. The first component is what \<^verbatim>\<open>console.error\<close> printed.
\<close>

definition createChildCompiler ::
  "plugin \<Rightarrow> compiler_options \<Rightarrow> multi_target_options \<Rightarrow> string list \<times> (error + child_compiler)" where
  "createChildCompiler pluginSelf compilerOptions multiTargetOption =
     (let configPlugins = childPlugins pluginSelf compilerOptions multiTargetOption in
      if mto_plugins multiTargetOption = PluginsOther then ([], Inl TypeError)
      else case find (\<lambda>p. list_ex (samePlugin p) configPlugins) (co_plugins compilerOptions) of
        Some p \<Rightarrow>
          ([''Found plugin instance duplication: '' @ constructor_name p],
           Inl (Error duplicationMessage))
      | None \<Rightarrow>
          (let babelRules = findBabelRules (co_rules compilerOptions) in
           if babelRules = [] then ([], Inl (Error ''Could not find any babel-loader rules''))
           else ([], Inr \<lparr> cc_name = CHILD_COMPILER_PREFIX @ interpolate (mto_key multiTargetOption),
                           cc_plugins = configPlugins,
                           cc_babelRules =
                             map (\<lambda>r. case r of
                                        Rule l u opts \<Rightarrow> Rule l u (mto_options multiTargetOption)
                                      | StringEntry s \<Rightarrow> StringEntry s)
                                 babelRules \<rparr>)))"

text \<open>
  The \<^verbatim>\<open>map\<close> itself: the child compilers in order, and \<^verbatim>\<open>compilationBrowserProfiles\<close>,
  which maps the name of each child compiler to the profile of its target. A later target
  with the same name overwrites the entry; a throw ends the \<^verbatim>\<open>map\<close>.
\<close>

fun createChildCompilers ::
  "plugin \<Rightarrow> compiler_options \<Rightarrow> multi_target_options list \<Rightarrow>
   (string \<rightharpoonup> string option) \<Rightarrow>
   string list \<times> (error + child_compiler list \<times> (string \<rightharpoonup> string option))" where
  "createChildCompilers pluginSelf compilerOptions [] profiles = ([], Inr ([], profiles))"
| "createChildCompilers pluginSelf compilerOptions (opt # opts) profiles =
     (case createChildCompiler pluginSelf compilerOptions opt of
        (printed, Inl e) \<Rightarrow> (printed, Inl e)
      | (printed, Inr child) \<Rightarrow>
          (case createChildCompilers pluginSelf compilerOptions opts
                  (profiles(cc_name child \<mapsto> browserProfile opt)) of
             (printed', Inl e) \<Rightarrow> (printed @ printed', Inl e)
           | (printed', Inr (children, profiles')) \<Rightarrow>
               (printed @ printed', Inr (child # children, profiles'))))"

subsection \<open>Script tags\<close>

datatype attribute_value = AttrString string | AttrBool bool

record html_tag =
  tagName :: string
  attributes :: "string \<rightharpoonup> attribute_value"

record html_plugin_data =
  html_head :: "html_tag list"
  html_body :: "html_tag list"

text \<open>
  A child compilation: its name, if it has one, and the names of its assets (every asset
  is an object, hence truthy).
\<close>

record child_compilation =
  comp_name :: "string option"
  comp_assets :: "string list"

text \<open>
  \<^verbatim>\<open>child.assets[src]\<close> used as a condition: \<^verbatim>\<open>assets\<close> is a plain object, so the
  condition holds for the name of an asset and for the name of an inherited property.
\<close>

definition hasAsset :: "child_compilation \<Rightarrow> string \<Rightarrow> bool" where
  "hasAsset child src = (src \<in> set (comp_assets child) \<or> inheritedProperty src)"

text \<open>\<^verbatim>\<open>tag.attributes.src\<close> used as a property key of \<^verbatim>\<open>child.assets\<close>.\<close>

definition srcKey :: "html_tag \<Rightarrow> string" where
  "srcKey t =
     (case attributes t ''src'' of
        None \<Rightarrow> ''undefined''
      | Some (AttrString s) \<Rightarrow> s
      | Some (AttrBool b) \<Rightarrow> if b then ''true'' else ''false'')"

text \<open>
  \<^verbatim>\<open>compilation.children.filter(child => child.name.startsWith(CHILD_COMPILER_PREFIX))\<close>:
  reading \<^verbatim>\<open>startsWith\<close> of a missing name is a \<open>TypeError\<close>.
\<close>

fun prefixedChildren :: "child_compilation list \<Rightarrow> error + child_compilation list" where
  "prefixedChildren [] = Inr []"
| "prefixedChildren (child # rest) =
     (case comp_name child of
        None \<Rightarrow> Inl TypeError
      | Some n \<Rightarrow>
          (case prefixedChildren rest of
             Inl e \<Rightarrow> Inl e
           | Inr kept \<Rightarrow> Inr (if prefix CHILD_COMPILER_PREFIX n then child # kept else kept)))"

text \<open>
  The body of the \<^verbatim>\<open>forEach\<close> over the script tags. \<^verbatim>\<open>compilationBrowserProfiles\<close> is a
  plain object as well; it is read by the name of a child that starts with the reserved
  prefix, which is the name of no inherited property, and none of the inherited values
  is the string \<^verbatim>\<open>modern\<close>.
\<close>

definition alterScriptTag ::
  "multi_target_options list \<Rightarrow> (string \<rightharpoonup> string option) \<Rightarrow> child_compilation list \<Rightarrow>
   html_tag \<Rightarrow> html_tag" where
  "alterScriptTag targetOptions profiles children t =
     (let isModernBundle =
            (case find (\<lambda>child. hasAsset child (srcKey t)) children of
               Some child \<Rightarrow> profiles (interpolate (comp_name child)) = Some (Some ''modern'')
             | None \<Rightarrow> find (\<lambda>opts. browserProfile opts = Some ''legacy'') targetOptions \<noteq> None)
      in if isModernBundle
         then t\<lparr>attributes := (attributes t)(''type'' \<mapsto> AttrString ''module'')\<rparr>
         else t\<lparr>attributes := (attributes t)(''nomodule'' \<mapsto> AttrBool True)\<rparr>)"

text \<open>
  The handler of \<^verbatim>\<open>html-webpack-plugin-alter-asset-tags\<close>: the tags of \<^verbatim>\<open>head\<close> and
  \<^verbatim>\<open>body\<close> are changed in place, the script tags only.
\<close>

definition alterAssetTags ::
  "multi_target_options list \<Rightarrow> (string \<rightharpoonup> string option) \<Rightarrow> child_compilation list \<Rightarrow>
   html_plugin_data \<Rightarrow> error + html_plugin_data" where
  "alterAssetTags targetOptions profiles compilationChildren htmlPluginData =
     (case prefixedChildren compilationChildren of
        Inl e \<Rightarrow> Inl e
      | Inr children \<Rightarrow>
          (let alter = (\<lambda>t. if tagName t = ''script''
                            then alterScriptTag targetOptions profiles children t else t)
           in Inr (htmlPluginData
                \<lparr> html_head := map alter (html_head htmlPluginData),
                  html_body := map alter (html_body htmlPluginData) \<rparr>)))"

section \<open>Notions used in the statements\<close>

text \<open>
  An options object that the constructor of the orchestrator accepts, and the object as the
  constructor leaves it.
\<close>

definition acceptable :: "multi_target_options \<Rightarrow> bool" where
  "acceptable opts = (\<not> falsy (browserProfile opts) \<and> mto_plugins opts \<noteq> PluginsOther)"

definition withDefaultKey :: "multi_target_options \<Rightarrow> multi_target_options" where
  "withDefaultKey opts = (if falsy (mto_key opts) then opts\<lparr>mto_key := browserProfile opts\<rparr> else opts)"

text \<open>
  References are identities. A chain that the bundler hands in holds host objects only,
  and two of its entries with the same reference are the same object. The cache of the
  engine holds objects the engine created.
\<close>

definition hostRef :: "obj_ref \<Rightarrow> bool" where
  "hostRef r = (case r of HostRef n \<Rightarrow> True | EngineRef n \<Rightarrow> False | BuiltinRef p \<Rightarrow> False)"

definition hostChain :: "loader_entry list \<Rightarrow> bool" where
  "hostChain chain =
     (list_all (\<lambda>a. hostRef (ref a)) chain \<and>
      list_all (\<lambda>a. list_all (\<lambda>b. ref a = ref b \<longrightarrow> a = b) chain) chain)"

definition engineCache :: "targeting_plugin \<Rightarrow> bool" where
  "engineCache this = (\<forall>k s. babelLoaders this k = Some s \<longrightarrow> \<not> hostRef (ref s))"

text \<open>
  What stands in the rewritten chain at the place of the entry \<open>e\<close>, when
  \<^verbatim>\<open>replaceLoaders\<close> found a target: \<open>e\<close> itself when it is no marker; the object \<open>shared\<close>
  that \<^verbatim>\<open>this.babelLoaders[key]\<close> is for the key of the target when the loader of \<open>e\<close> is
  \<open>path\<close>, the babel loader; and otherwise a new object with the loader and the identifier
  of \<open>e\<close> and, as options, the \<^verbatim>\<open>loaderOptions\<close> of \<open>e\<close>.
\<close>

definition replacement :: "string \<Rightarrow> loader_entry option \<Rightarrow> loader_entry \<Rightarrow> loader_entry \<Rightarrow> bool" where
  "replacement path shared e e' =
     (if \<not> isMarker e then e' = e
      else if loader e = Some path then shared = Some e'
      else loader e' = loader e \<and> loader_options e' = loaderOptions (loader_options e) \<and>
           ident e' = ident e \<and> \<not> hostRef (ref e'))"

text \<open>
  How the cache may differ after a chain was rewritten for the target \<open>t\<close>: only at the key
  of \<open>t\<close>; what \<^verbatim>\<open>this.babelLoaders[key]\<close> was for that key before, it still is; and where
  it was \<^verbatim>\<open>undefined\<close> before and is an object now, that object is a babel loader with the
  options of \<open>t\<close>.
\<close>

definition cacheExtended :: "targeting_plugin \<Rightarrow> babel_target \<Rightarrow> targeting_plugin \<Rightarrow> bool" where
  "cacheExtended this t this' =
     (babelLoaderPath this' = babelLoaderPath this \<and>
      (\<forall>k. k \<noteq> key t \<longrightarrow> babelLoaders this' k = babelLoaders this k) \<and>
      (case cachedLoader (babelLoaders this) (key t) of
         Some s \<Rightarrow> cachedLoader (babelLoaders this') (key t) = Some s
       | None \<Rightarrow>
           (case cachedLoader (babelLoaders this') (key t) of
              None \<Rightarrow> True
            | Some s \<Rightarrow> loader s = Some (babelLoaderPath this) \<and> loader_options s = options t \<and>
                        \<not> hostRef (ref s))))"

text \<open>The name that \<^verbatim>\<open>apply\<close> gives to the child compiler of a target.\<close>

definition childName :: "multi_target_options \<Rightarrow> string" where
  "childName opt = CHILD_COMPILER_PREFIX @ interpolate (mto_key opt)"

text \<open>
  The profile recorded for the name of a child compiler: that of the last configured target
  whose child compiler has that name.
\<close>

definition recordedProfile :: "multi_target_options list \<Rightarrow> string \<Rightarrow> string option option" where
  "recordedProfile opts n = map_option browserProfile (find (\<lambda>opt. childName opt = n) (rev opts))"

section \<open>Example configurations\<close>

text \<open>Two targets, and an engine for them as its constructor builds it.\<close>

definition legacy :: babel_target where
  "legacy = \<lparr> key = ''legacy'', options = OptionsObject False OptionsUndefined ''legacy presets'' \<rparr>"

definition modern :: babel_target where
  "modern = \<lparr> key = ''modern'', options = OptionsObject False OptionsUndefined ''modern presets'' \<rparr>"

definition engine0 :: targeting_plugin where
  "engine0 = \<lparr> targets = [legacy, modern],
               exclude = [],
               doNotTarget = NOT_TARGETED,
               externals = ExternalsArray [ExternalsString ''jquery''],
               babelLoaderPath = ''/node_modules/babel-loader/lib/index.js'',
               babelLoaders = Map.empty,
               remainingTargets = Map.empty,
               allocated = 0 \<rparr>"

definition imports0 :: engine_imports where
  "imports0 = \<lparr> STANDARD_EXCLUDED = [], KNOWN_EXCLUDED = [],
                path_resolve = (\<lambda>root p. root @ ''/'' @ p) \<rparr>"

text \<open>The bundler's own \<^verbatim>\<open>addDependency\<close> appends to the dependencies of the module.\<close>

definition hostAddDependency :: "dependency \<Rightarrow> dependency list \<Rightarrow> error + dependency list" where
  "hostAddDependency dep deps = Inr (deps @ [dep])"

definition appModule :: "string \<Rightarrow> normal_module" where
  "appModule r = \<lparr> module_request = r, module_options = None, module_dependencies = [],
                   addDependency = hostAddDependency \<rparr>"

definition requestOf :: "string \<Rightarrow> dependency" where
  "requestOf r = \<lparr> dep_request = Some r, dep_babelTarget = None, dep_originModule = None,
                   dep_groupName = None \<rparr>"

text \<open>A vendored file, and a caller's exclusion pattern \<^verbatim>\<open>/^\/src\/vendor\//\<close> that matches its path.\<close>

definition vendorPattern :: regexp where
  "vendorPattern = RegExp (prefix ''/src/vendor/'')"

definition vendorContext :: resolve_context where
  "vendorContext =
     \<lparr> rc_request = ''./vendor/lib.js'',
       rc_resource = ''/src/vendor/lib.js'',
       rc_resolve = None,
       rc_loaders = [],
       rc_dependencies = [],
       rc_contextInfo = None,
       rc_resourceResolveData =
         Some \<lparr> descriptionFileRoot = ''/'',
                descriptionFileData = Some \<lparr> pkg_main = None, pkg_browser = BrowserUndefined \<rparr>,
                rrd_context = None \<rparr> \<rparr>"

text \<open>A loader chain with two markers, one of them on the babel loader.\<close>

definition markerEntry :: "nat \<Rightarrow> string \<Rightarrow> string \<Rightarrow> loader_entry" where
  "markerEntry n path inner =
     \<lparr> ref = HostRef n, loader = Some path,
       loader_options = OptionsObject True (OptionsObject False OptionsUndefined inner) [],
       ident = None \<rparr>"

definition plainEntry :: "nat \<Rightarrow> string \<Rightarrow> loader_entry" where
  "plainEntry n path =
     \<lparr> ref = HostRef n, loader = Some path, loader_options = OptionsUndefined, ident = None \<rparr>"


text \<open>
  A request with the same chain, issued by \<^verbatim>\<open>/src/index.js\<close>, of which nothing in its
  context tells the target.
\<close>

definition lazyContext :: "string \<Rightarrow> resolve_context" where
  "lazyContext request =
     \<lparr> rc_request = request,
       rc_resource = ''/src/lazy.js'',
       rc_resolve = None,
       rc_loaders = [markerEntry 0 ''/node_modules/babel-loader/lib/index.js'' ''cacheDirectory'',
                     markerEntry 1 ''/node_modules/ts-loader/index.js'' ''transpileOnly'',
                     plainEntry 2 ''/node_modules/cache-loader/index.js''],
       rc_dependencies = [],
       rc_contextInfo = Some \<lparr> ci_babelTarget = None \<rparr>,
       rc_resourceResolveData =
         Some \<lparr> descriptionFileRoot = ''/'',
                descriptionFileData = Some \<lparr> pkg_main = Some ''index.js'', pkg_browser = BrowserUndefined \<rparr>,
                rrd_context = Some \<lparr> rdc_issuer = ''/src/index.js'', rdc_babelTarget = None \<rparr> \<rparr> \<rparr>"


text \<open>
  A second target with the key \<^verbatim>\<open>modern\<close> and options of its own, an engine configured with
  both, and the chain that the engine makes for a module of the second target once the
  chain of a module of the first has been rewritten.
\<close>

definition es2017 :: babel_target where
  "es2017 = \<lparr> key = ''modern'', options = OptionsObject False OptionsUndefined ''es2017 presets'' \<rparr>"



text \<open>Target options for the orchestrator, plugins, and a parent configuration.\<close>

definition modernOptions :: multi_target_options where
  "modernOptions = \<lparr> browserProfile = Some ''modern'', mto_key = None,
                      mto_options = OptionsObject False OptionsUndefined ''modern presets'',
                      mto_plugins = PluginsUndefined \<rparr>"

definition es2017Options :: multi_target_options where
  "es2017Options = \<lparr> browserProfile = Some ''modern'', mto_key = None,
                      mto_options = OptionsObject False OptionsUndefined ''es2017 presets'',
                      mto_plugins = PluginsUndefined \<rparr>"

definition legacyOptions :: multi_target_options where
  "legacyOptions = \<lparr> browserProfile = Some ''legacy'', mto_key = None,
                      mto_options = OptionsObject False OptionsUndefined ''legacy presets'',
                      mto_plugins = PluginsUndefined \<rparr>"

definition selfPlugin :: plugin where
  "selfPlugin = \<lparr> plugin_ref = 0, constructor_name = ''WebpackBabelMultiTargetPlugin'',
                   constructed_by_this_class = True \<rparr>"

definition fooPlugin :: plugin where
  "fooPlugin = \<lparr> plugin_ref = 1, constructor_name = ''FooPlugin'', constructed_by_this_class = False \<rparr>"

definition barPlugin :: plugin where
  "barPlugin = \<lparr> plugin_ref = 2, constructor_name = ''BarPlugin'', constructed_by_this_class = False \<rparr>"

definition parentOptions :: "plugin list \<Rightarrow> compiler_options" where
  "parentOptions ps =
     \<lparr> co_plugins = selfPlugin # ps,
       co_rules = [Rule (Some BABEL_LOADER) UseUndefined OptionsUndefined] \<rparr>"




text \<open>Two child compilations with one asset each, and a page with three script tags.\<close>

definition childOf :: "string \<Rightarrow> string \<Rightarrow> child_compilation" where
  "childOf k asset = \<lparr> comp_name = Some (CHILD_COMPILER_PREFIX @ k), comp_assets = [asset] \<rparr>"

definition scriptTag :: "string \<Rightarrow> html_tag" where
  "scriptTag src = \<lparr> tagName = ''script'', attributes = [''src'' \<mapsto> AttrString src] \<rparr>"



text \<open>
  What \<^verbatim>\<open>compilationBrowserProfiles\<close> holds after \<^verbatim>\<open>apply\<close> for the targets \<^verbatim>\<open>legacy\<close> and
  \<^verbatim>\<open>modern\<close>, in this order.
\<close>

definition pageProfiles :: "string \<rightharpoonup> string option" where
  "pageProfiles = [CHILD_COMPILER_PREFIX @ ''legacy'' \<mapsto> Some ''legacy'',
                   CHILD_COMPILER_PREFIX @ ''modern'' \<mapsto> Some ''modern'']"

section \<open>Blind assignment\<close>

lemma getBlindTarget_within:
  "\<not> inheritedProperty issuer \<Longrightarrow> \<exists>r this'. getBlindTarget this issuer k = Within (r, this')"
  by (simp add: getBlindTarget_def split: option.split sum.split list.split)

lemma getBlindTarget_targets:
  "getBlindTarget this issuer k = Within (r, this') \<Longrightarrow> targets this' = targets this"
  by (auto simp add: getBlindTarget_def split: option.splits sum.splits list.splits if_splits)

lemma getBlindTarget_result:
  "getBlindTarget this issuer k = Within (r, this') \<Longrightarrow> \<not> inheritedProperty k \<Longrightarrow>
   r = (case pending this issuer k of [] \<Rightarrow> Inl (BlindTargetingError k) | t # rest \<Rightarrow> Inr t)"
  by (auto simp add: getBlindTarget_def pending_def inheritedProperty_def
      split: option.splits sum.splits list.splits if_splits)

lemma getBlindTarget_pending_same:
  "getBlindTarget this issuer k = Within (r, this') \<Longrightarrow> \<not> inheritedProperty k \<Longrightarrow>
   pending this' issuer k = tl (pending this issuer k)"
  by (auto simp add: getBlindTarget_def pending_def inheritedProperty_def
      split: option.splits sum.splits list.splits if_splits)

lemma getBlindTarget_pending_other:
  "(issuer', k') \<noteq> (issuer, k) \<Longrightarrow> getBlindTarget this issuer' k' = Within (r, this') \<Longrightarrow>
   pending this' issuer k = pending this issuer k"
  by (auto simp add: getBlindTarget_def pending_def
      split: option.splits sum.splits list.splits if_splits)

text \<open>
  A run whose issuers are not names of inherited properties stays within the plugin, and
  the calls made in it for one \<open>(issuer, key)\<close>, the key not the name of an inherited
  property either, take the head of the queue pending for the pair, one after the other,
  and fail once it is empty.
\<close>

lemma getBlindTargets_from_pending:
  assumes "\<forall>c\<in>set calls. \<not> inheritedProperty (fst c)" and "\<not> inheritedProperty k"
  shows "\<exists>rs this'.
           getBlindTargets this calls = Within (rs, this') \<and>
           resultsFor (issuer, k) calls rs =
             map Inr (take (count_list calls (issuer, k)) (pending this issuer k)) @
             replicate (count_list calls (issuer, k) - length (pending this issuer k))
               (Inl (BlindTargetingError k))"
  using assms(1)
proof (induction calls arbitrary: this)
  case Nil
  show ?case by (simp add: resultsFor_def)
next
  case (Cons c calls)
  obtain i' k' where c: "c = (i', k')" by (cases c)
  from Cons.prems c have own: "\<not> inheritedProperty i'" by simp
  from Cons.prems have rest_own: "\<forall>c\<in>set calls. \<not> inheritedProperty (fst c)" by simp
  from getBlindTarget_within [OF own] obtain r this'
    where step: "getBlindTarget this i' k' = Within (r, this')" by blast
  from Cons.IH [OF rest_own, of this'] obtain rs this''
    where rest: "getBlindTargets this' calls = Within (rs, this'')"
      and ih: "resultsFor (issuer, k) calls rs =
        map Inr (take (count_list calls (issuer, k)) (pending this' issuer k)) @
        replicate (count_list calls (issuer, k) - length (pending this' issuer k))
          (Inl (BlindTargetingError k))"
    by blast
  have run: "getBlindTargets this (c # calls) = Within (r # rs, this'')"
    by (simp add: c step rest)
  have "resultsFor (issuer, k) (c # calls) (r # rs) =
     map Inr (take (count_list (c # calls) (issuer, k)) (pending this issuer k)) @
     replicate (count_list (c # calls) (issuer, k) - length (pending this issuer k))
       (Inl (BlindTargetingError k))"
  proof (cases "(i', k') = (issuer, k)")
    case False
    have "pending this' issuer k = pending this issuer k"
      using getBlindTarget_pending_other [OF False step] .
    with ih False show ?thesis
      by (auto simp add: c resultsFor_def)
  next
    case True
    have p: "pending this' issuer k = tl (pending this issuer k)"
      using getBlindTarget_pending_same [of this issuer k r this'] step True assms(2) by simp
    have r: "r = (case pending this issuer k of
                    [] \<Rightarrow> Inl (BlindTargetingError k) | t # rest \<Rightarrow> Inr t)"
      using getBlindTarget_result [of this issuer k r this'] step True assms(2) by simp
    show ?thesis
    proof (cases "pending this issuer k")
      case Nil
      with ih p r True show ?thesis
        by (auto simp add: c resultsFor_def)
    next
      case (Cons t q)
      with ih p r True show ?thesis
        by (auto simp add: c resultsFor_def)
    qed
  qed
  with run show ?case by blast
qed

text \<open>
  Off the names of inherited properties the assignment is as described. Start from an
  empty ledger (as after construction or \<^verbatim>\<open>watchRun\<close>) and make any run of blind
  assignments whose issuers are not such names. The calls made for one fixed
  \<open>(issuer, key)\<close>, the key not such a name, however they are interleaved with calls for
  other pairs, return the configured targets one by one in the configured order; once all
  \<open>N\<close> have been handed out, every further call for the pair fails with
  \<open>BlindTargetingError key\<close>.
\<close>

lemma getBlindTargets_own_names:
  assumes "\<forall>c\<in>set calls. \<not> inheritedProperty (fst c)" and "\<not> inheritedProperty k"
  shows "\<exists>rs this'.
           getBlindTargets (this\<lparr>remainingTargets := Map.empty\<rparr>) calls = Within (rs, this') \<and>
           resultsFor (issuer, k) calls rs =
             map Inr (take (count_list calls (issuer, k)) (targets this)) @
             replicate (count_list calls (issuer, k) - length (targets this))
               (Inl (BlindTargetingError k))"
  using getBlindTargets_from_pending [OF assms, of "this\<lparr>remainingTargets := Map.empty\<rparr>" issuer]
  by (simp add: pending_def)

lemma getBlindTargets_own_names_example:
  "getBlindTargets engine0
     [(''/src/index.js'', ''./lazy.js''), (''/src/index.js'', ''./other.js''),
      (''/src/index.js'', ''./lazy.js''), (''/src/index.js'', ''./lazy.js'')] =
   Within
     ([Inr legacy, Inr legacy, Inr modern, Inl (BlindTargetingError ''./lazy.js'')],
      engine0\<lparr>remainingTargets :=
                 [''/src/index.js'' \<mapsto> [''./lazy.js'' \<mapsto> [], ''./other.js'' \<mapsto> [modern]]]\<rparr>)"
  by (simp add: getBlindTarget_def engine0_def inheritedProperty_def objectPrototype_def
      fun_upd_twist)

text \<open>
  \<^verbatim>\<open>checkResolveTarget\<close> makes the blind assignment by the request as it stands: for the
  request \<^verbatim>\<open>toString\<close>, which is targeted and transpiled, has a marker loader and finds no
  target in its context, the first assignment already fails.
\<close>

lemma lazyContext_toString:
  "checkResolveTarget imports0 engine0 (lazyContext ''toString'') True =
     Within (Inl (BlindTargetingError ''toString''))"
proof -
  have a: "isTargetedRequest engine0 (lazyContext ''toString'') ''toString'' = Inr True"
    by (simp add: isTargetedRequest_def engine0_def NOT_TARGETED_def suffix_to_prefix)
  have b: "isTranspiledRequest imports0 engine0 (lazyContext ''toString'') = Inr True"
    by (simp add: isTranspiledRequest_def imports0_def engine0_def lazyContext_def
        browserExcludes_def)
  have c: "getTargetFromTag ''toString'' (targets engine0) = None"
    by (simp add: getTargetFromTag_def engine0_def tag_def legacy_def modern_def suffix_to_prefix)
  have d: "getTargetFromContext (lazyContext ''toString'') = None"
    by (simp add: getTargetFromContext_def lazyContext_def)
  have e: "getBlindTarget engine0 ''/src/index.js'' ''toString'' =
      Within (Inl (BlindTargetingError ''toString''),
              engine0\<lparr>remainingTargets := [''/src/index.js'' \<mapsto> Map.empty]\<rparr>)"
    by (simp add: getBlindTarget_def engine0_def inheritedProperty_def objectPrototype_def)
  have f: "rc_request (lazyContext ''toString'') = ''toString''"
    "rc_resourceResolveData (lazyContext ''toString'') =
       Some \<lparr> descriptionFileRoot = ''/'',
              descriptionFileData = Some \<lparr> pkg_main = Some ''index.js'', pkg_browser = BrowserUndefined \<rparr>,
              rrd_context = Some \<lparr> rdc_issuer = ''/src/index.js'', rdc_babelTarget = None \<rparr> \<rparr>"
    by (simp_all add: lazyContext_def)
  show ?thesis
    by (simp add: checkResolveTarget_def f a b c d e)
qed


section \<open>Entry dependencies\<close>

text \<open>
  C10. A \<^verbatim>\<open>BabelTargetSingleEntryDependency\<close> built from target \<open>T\<close>, request \<open>R\<close> and
  original name \<open>N\<close> has as its request \<open>R\<close> itself when \<open>R\<close> starts with the dev-server
  client prefix and \<open>T.getTargetedRequest(R)\<close> otherwise; its name is
  \<open>T.getTargetedAssetName(N)\<close>, and its \<open>loc\<close> ends with a colon followed by the key of \<open>T\<close>,
  whether or not a \<open>loc\<close> was passed.
\<close>

theorem BabelTargetSingleEntryDependency_fields:
  "sed_request (BabelTargetSingleEntryDependency DEV_SERVER_CLIENT T R N loc0) =
     (if prefix DEV_SERVER_CLIENT R then R else getTargetedRequest T R) \<and>
   name (BabelTargetSingleEntryDependency DEV_SERVER_CLIENT T R N loc0) = getTargetedAssetName T N \<and>
   suffix ('':'' @ key T) (loc (BabelTargetSingleEntryDependency DEV_SERVER_CLIENT T R N loc0))"
  by (simp add: BabelTargetSingleEntryDependency_def Let_def suffix_def split: option.split)

section \<open>Module discovery and dependency interception\<close>

lemma engine0_targets_tagged_app:
  "isTargetedRequest engine0 context ''./app.js?babelTarget=modern'' = Inr True"
  by (simp add: isTargetedRequest_def engine0_def NOT_TARGETED_def suffix_to_prefix)

lemma engine0_tag_of_app:
  "getTargetFromTag ''./app.js?babelTarget=modern'' (targets engine0) = Some modern"
  by (simp add: getTargetFromTag_def engine0_def tag_def legacy_def modern_def suffix_to_prefix)

lemma engine0_targets_dep: "isTargetedRequest engine0 context ''./dep.js'' = Inr True"
  by (simp add: isTargetedRequest_def engine0_def NOT_TARGETED_def suffix_to_prefix)

lemma modern_tags_dep: "getTargetedRequest modern ''./dep.js'' = ''./dep.js?babelTarget=modern''"
  by (simp add: getTargetedRequest_def tag_def modern_def suffix_to_prefix)

text \<open>
  C2. Let \<^verbatim>\<open>targetModule\<close> determine the target \<open>T\<close> for a module: the request of the module
  is targeted and carries the tag of \<open>T\<close>. Then the module it leaves has \<open>T\<close> recorded, and its
  \<^verbatim>\<open>addDependency\<close>, called with a dependency \<open>D\<close> whose request \<open>r\<close> is eligible (not empty,
  matching no do-not-target pattern, no external reference), hands to the method it
  replaced, the one that registers, \<open>D\<close> with the request \<open>T.getTargetedRequest(r)\<close>.
\<close>

theorem addDependency_tags_eligible_request:
  assumes "isTargetedRequest this module (module_request module) = Inr True"
    and "getTargetFromTag (module_request module) (targets this) = Some T"
    and "dep_request D = Some r" and "r \<noteq> []"
    and "isTargetedRequest this D r = Inr True"
  shows "\<exists>module' opts.
           targetModule this module = Inr module' \<and>
           module_options module' = Some opts \<and> babelTarget opts = Some T \<and>
           addDependency module' D deps =
             addDependency module (D\<lparr>dep_request := Some (getTargetedRequest T r)\<rparr>) deps"
  using assms by (simp add: targetModule_def targetDependency_def)

theorem addDependency_tags_eligible_request_witness:
  "isTargetedRequest engine0 (appModule ''./app.js?babelTarget=modern'')
      (module_request (appModule ''./app.js?babelTarget=modern'')) = Inr True \<and>
   getTargetFromTag (module_request (appModule ''./app.js?babelTarget=modern'')) (targets engine0) =
      Some modern \<and>
   dep_request (requestOf ''./dep.js'') = Some ''./dep.js'' \<and>
   ''./dep.js'' \<noteq> [] \<and>
   isTargetedRequest engine0 (requestOf ''./dep.js'') ''./dep.js'' = Inr True \<and>
   (\<exists>module' opts.
      targetModule engine0 (appModule ''./app.js?babelTarget=modern'') = Inr module' \<and>
      module_options module' = Some opts \<and> babelTarget opts = Some modern \<and>
      addDependency module' (requestOf ''./dep.js'') [] =
        Inr [requestOf ''./dep.js?babelTarget=modern''])"
proof -
  have a: "isTargetedRequest engine0 (appModule ''./app.js?babelTarget=modern'')
      (module_request (appModule ''./app.js?babelTarget=modern'')) = Inr True"
    by (simp add: appModule_def engine0_targets_tagged_app)
  have b: "getTargetFromTag (module_request (appModule ''./app.js?babelTarget=modern''))
      (targets engine0) = Some modern"
    by (simp add: appModule_def engine0_tag_of_app)
  have c: "dep_request (requestOf ''./dep.js'') = Some ''./dep.js''"
    by (simp add: requestOf_def)
  have d: "''./dep.js'' \<noteq> []" by simp
  have e: "isTargetedRequest engine0 (requestOf ''./dep.js'') ''./dep.js'' = Inr True"
    by (rule engine0_targets_dep)
  from addDependency_tags_eligible_request [OF a b c d e, of "[]"]
  show ?thesis using a b c d e
    by (simp add: modern_tags_dep appModule_def hostAddDependency_def requestOf_def)
qed

text \<open>
  C3, as the code has it. At module discovery, for every eligible request, the engine only
  parses an existing tag from the request. If the tag names a configured target \<open>T\<close>, the
  request is rewritten to the form tagged with \<open>T\<close> and \<open>T\<close> is recorded on the options of the
  module. If there is none, the module is left as it is: \<^verbatim>\<open>targetModule\<close> makes no blind
  assignment.
\<close>

theorem targetModule_parses_tag_only:
  assumes "isTargetedRequest this module (module_request module) = Inr True"
  shows "(getTargetFromTag (module_request module) (targets this) = None \<longrightarrow>
            targetModule this module = Inr module) \<and>
         (\<forall>T. getTargetFromTag (module_request module) (targets this) = Some T \<longrightarrow>
            (\<exists>module' opts. targetModule this module = Inr module' \<and>
               module_request module' = getTargetedRequest T (module_request module) \<and>
               module_options module' = Some opts \<and> babelTarget opts = Some T))"
  using assms by (simp add: targetModule_def)

theorem targetModule_parses_tag_only_witness:
  "isTargetedRequest engine0 (appModule ''./main.js?babelTarget=legacy'')
      (module_request (appModule ''./main.js?babelTarget=legacy'')) = Inr True \<and>
   getTargetFromTag (module_request (appModule ''./main.js?babelTarget=legacy'')) (targets engine0) =
      Some legacy \<and>
   (\<exists>module' opts. targetModule engine0 (appModule ''./main.js?babelTarget=legacy'') = Inr module' \<and>
      module_request module' = ''./main.js?babelTarget=legacy'' \<and>
      module_options module' = Some opts \<and> babelTarget opts = Some legacy)"
proof -
  have a: "isTargetedRequest engine0 (appModule ''./main.js?babelTarget=legacy'')
      (module_request (appModule ''./main.js?babelTarget=legacy'')) = Inr True"
    by (simp add: isTargetedRequest_def engine0_def appModule_def NOT_TARGETED_def suffix_to_prefix)
  have b: "getTargetFromTag (module_request (appModule ''./main.js?babelTarget=legacy''))
      (targets engine0) = Some legacy"
    by (simp add: getTargetFromTag_def engine0_def appModule_def tag_def legacy_def suffix_to_prefix)
  have c: "getTargetedRequest legacy (module_request (appModule ''./main.js?babelTarget=legacy'')) =
      ''./main.js?babelTarget=legacy''"
    by (simp add: getTargetedRequest_def appModule_def tag_def legacy_def suffix_to_prefix)
  from targetModule_parses_tag_only [OF a] b c show ?thesis using a by simp
qed

text \<open>
  The blind assignment is made after resolution: \<^verbatim>\<open>checkResolveTarget\<close>, for a request that
  is targeted and transpiled, has a marker loader, carries no tag and finds no target in
  its context, takes the target from \<^verbatim>\<open>getBlindTarget\<close> by the issuer and the request, and
  tags the request with it.
\<close>

lemma checkResolveTarget_blind_fallback:
  assumes "isTargetedRequest this resolveContext (rc_request resolveContext) = Inr True"
    and "isTranspiledRequest imports this resolveContext = Inr True"
    and "getTargetFromTag (rc_request resolveContext) (targets this) = None"
    and "getTargetFromContext resolveContext = None"
    and "rc_resourceResolveData resolveContext = Some rrd" and "rrd_context rrd = Some c"
    and "getBlindTarget this (rdc_issuer c) (rc_request resolveContext) = Within (Inr t, this')"
  shows "\<exists>resolveContext'.
           checkResolveTarget imports this resolveContext True =
             Within (Inr (resolveContext', this')) \<and>
           rc_request resolveContext' = getTargetedRequest t (rc_request resolveContext)"
  using assms by (simp add: checkResolveTarget_def)

text \<open>
  C3 as stated fails: the request \<^verbatim>\<open>./app.js\<close> is eligible and carries no tag, a blind
  assignment for it would give \<^verbatim>\<open>legacy\<close>, and \<^verbatim>\<open>targetModule\<close> returns the module with its
  request not rewritten and no target recorded.
\<close>

theorem targetModule_untagged_counterexample:
  "isTargetedRequest engine0 (appModule ''./app.js'') (module_request (appModule ''./app.js'')) =
     Inr True \<and>
   getTargetFromTag (module_request (appModule ''./app.js'')) (targets engine0) = None \<and>
   map_option fst (within (getBlindTarget engine0 ''/src/index.js'' ''./app.js'')) =
     Some (Inr legacy) \<and>
   targetModule engine0 (appModule ''./app.js'') = Inr (appModule ''./app.js'') \<and>
   module_request (appModule ''./app.js'') = ''./app.js'' \<and>
   module_options (appModule ''./app.js'') = None"
  by (simp add: targetModule_def isTargetedRequest_def getTargetFromTag_def getBlindTarget_def
      inheritedProperty_def objectPrototype_def
      engine0_def appModule_def NOT_TARGETED_def tag_def legacy_def modern_def suffix_to_prefix)

section \<open>Function-valued externals\<close>

text \<open>
  In an array of externals a function throws only when the loop reaches it: an element
  before it that matches ends the loop with \<open>True\<close>.
\<close>

lemma isExternalRequest_loop_function:
  "isExternalRequest_loop context request (pre @ ExternalsFunction # post) =
     (case isExternalRequest_loop context request pre of
        Inl e \<Rightarrow> Inl e
      | Inr b \<Rightarrow> if b then Inr True
                 else Inl (Error ''Using an ExternalsFunctionElement is not supported''))"
  by (induction pre) (auto split: sum.split)

text \<open>
  C6, as the code has it. The constructor of the engine accepts a function-valued externals
  declaration and keeps it. The error is raised when a request is checked: a request that
  matches a do-not-target pattern is answered with \<open>False\<close> without looking at the
  externals, and every other request throws
  \<^verbatim>\<open>Using an ExternalsFunctionElement is not supported\<close>.
\<close>

theorem function_externals_rejected_at_request_check:
  "(case TargetingPlugin resolved ts excl dnt ExternalsFunction of
      Inl e \<Rightarrow> False
    | Inr this \<Rightarrow>
        externals this = ExternalsFunction \<and>
        isTargetedRequest this context request =
          (if find (\<lambda>entry. test entry request) (doNotTarget this) \<noteq> None then Inr False
           else Inl (Error ''Using an ExternalsFunctionElement is not supported'')))"
  by (simp add: TargetingPlugin_def isTargetedRequest_def)

text \<open>
  C6 as stated fails: the constructor returns an engine for a function-valued externals
  declaration, and that engine then processes the request \<^verbatim>\<open>./style.css\<close> without an error.
\<close>

theorem TargetingPlugin_accepts_function_externals:
  "TargetingPlugin ''/node_modules/babel-loader/lib/index.js'' [legacy, modern] [] None
     ExternalsFunction =
     Inr (engine0\<lparr>externals := ExternalsFunction\<rparr>) \<and>
   isTargetedRequest (engine0\<lparr>externals := ExternalsFunction\<rparr>) () ''./style.css'' = Inr False"
  by (simp add: TargetingPlugin_def engine0_def isTargetedRequest_def NOT_TARGETED_def
      suffix_to_prefix)

section \<open>The exclusion policy and the caller's patterns\<close>

text \<open>
  C7 does not hold of the code. The resolved file \<^verbatim>\<open>/src/vendor/lib.js\<close> matches the
  caller's exclusion pattern, and \<^verbatim>\<open>isTranspiledRequest\<close> returns \<open>True\<close>: the caller's
  patterns are tested on \<^verbatim>\<open>resolveContext.resolve\<close>, which is not set, and not on
  \<^verbatim>\<open>resolveContext.resource\<close> as the two lists before them are.
\<close>

theorem isTranspiledRequest_ignores_exclude_on_resource:
  "test vendorPattern (rc_resource vendorContext) \<and>
   isTranspiledRequest imports0 (engine0\<lparr>exclude := [vendorPattern]\<rparr>) vendorContext = Inr True"
  by (simp add: isTranspiledRequest_def imports0_def vendorPattern_def vendorContext_def
      engine0_def browserExcludes_def)

text \<open>
  For a context as the bundler hands it in, a list of caller's patterns of which none
  matches the string \<^verbatim>\<open>undefined\<close> decides nothing, whatever the resource is.
\<close>

lemma isTranspiledRequest_exclude_without_effect:
  assumes "rc_resolve resolveContext = None"
    and "\<not> list_ex (\<lambda>pattern. test pattern ''undefined'') (exclude this)"
  shows "isTranspiledRequest imports this resolveContext =
           isTranspiledRequest imports (this\<lparr>exclude := []\<rparr>) resolveContext"
proof -
  have "find (\<lambda>pattern. test pattern ''undefined'') (exclude this) = None"
    using assms(2) by (simp add: find_None_iff list_ex_iff)
  with assms(1) show ?thesis
    by (simp add: isTranspiledRequest_def)
qed

text \<open>
  The same file is rejected when the pattern stands in one of the two lists that are tested
  on \<^verbatim>\<open>resolveContext.resource\<close>.
\<close>

lemma isTranspiledRequest_known_excluded:
  "isTranspiledRequest (imports0\<lparr>KNOWN_EXCLUDED := [vendorPattern]\<rparr>) engine0 vendorContext =
     Inr False"
  by (simp add: isTranspiledRequest_def imports0_def vendorPattern_def vendorContext_def)

section \<open>Construction of the orchestrator\<close>

lemma checkOptions_accepts:
  "list_all acceptable opts \<Longrightarrow> checkOptions opts = Inr (map withDefaultKey opts)"
  by (induction opts) (simp_all add: acceptable_def withDefaultKey_def)

lemma checkOptions_rejects:
  "\<not> list_all acceptable opts \<Longrightarrow> isl (checkOptions opts)"
  by (induction opts) (auto simp add: acceptable_def split: sum.split)

text \<open>
  C4, as the code has it. The constructor succeeds exactly when at least one options object
  is given and each has a browser profile and a \<^verbatim>\<open>plugins\<close> value that is absent or a
  function; the plugin then holds the objects in their order, each with its key, where a key
  that was omitted is the browser profile. Whether two keys are equal plays no part.
\<close>

theorem WebpackBabelMultiTargetPlugin_key_defaults:
  "WebpackBabelMultiTargetPlugin opts = Inr this \<longleftrightarrow>
     opts \<noteq> [] \<and> list_all acceptable opts \<and>
     this = \<lparr> multiTargetOptions = map withDefaultKey opts \<rparr>"
proof (cases "list_all acceptable opts")
  case True
  then show ?thesis
    using checkOptions_accepts [of opts] by (auto simp add: WebpackBabelMultiTargetPlugin_def)
next
  case False
  then show ?thesis
    using checkOptions_rejects [of opts]
    by (auto simp add: WebpackBabelMultiTargetPlugin_def split: sum.split)
qed

text \<open>
  C4 as stated fails: two targets of profile \<^verbatim>\<open>modern\<close> with no key are accepted, and both
  end up with the key \<^verbatim>\<open>modern\<close>.
\<close>

theorem WebpackBabelMultiTargetPlugin_accepts_shared_key:
  "WebpackBabelMultiTargetPlugin [modernOptions, es2017Options] =
     Inr \<lparr> multiTargetOptions =
             [modernOptions\<lparr>mto_key := Some ''modern''\<rparr>,
              es2017Options\<lparr>mto_key := Some ''modern''\<rparr>] \<rparr>"
  by (simp add: WebpackBabelMultiTargetPlugin_def modernOptions_def es2017Options_def falsy_def)

section \<open>Plugin instances shared with a child configuration\<close>

lemma find_list_ex: "list_ex P xs \<Longrightarrow> \<exists>x \<in> set xs. P x \<and> find P xs = Some x"
  by (induction xs) auto

lemma find_first:
  "find P xs = Some x \<Longrightarrow>
   \<exists>before after. xs = before @ x # after \<and> list_all (\<lambda>y. \<not> P y) before \<and> P x"
proof (induction xs)
  case Nil
  then show ?case by simp
next
  case (Cons a xs)
  show ?case
  proof (cases "P a")
    case True
    with Cons.prems have "a = x" by simp
    with True show ?thesis by (intro exI [of _ "[]"] exI [of _ xs]) simp
  next
    case False
    with Cons obtain before after where
      "xs = before @ x # after" "list_all (\<lambda>y. \<not> P y) before" "P x"
      by auto
    with False show ?thesis by (intro exI [of _ "a # before"] exI [of _ after]) simp
  qed
qed

lemma createChildCompilers_fail:
  "opt \<in> set opts \<Longrightarrow> isl (snd (createChildCompiler pluginSelf co opt)) \<Longrightarrow>
   isl (snd (createChildCompilers pluginSelf co opts profiles))"
proof (induction opts arbitrary: profiles)
  case Nil
  then show ?case by simp
next
  case (Cons a opts)
  show ?case
  proof (cases "createChildCompiler pluginSelf co a")
    case (Pair printed r)
    show ?thesis
    proof (cases r)
      case (Inl e)
      with Pair show ?thesis by simp
    next
      case (Inr child)
      with Pair Cons.prems have "opt \<in> set opts" by auto
      from Cons.IH [OF this Cons.prems(2)]
      have "isl (snd (createChildCompilers pluginSelf co opts
                        (profiles(cc_name child \<mapsto> browserProfile a))))" .
      then obtain printed' e where
        "createChildCompilers pluginSelf co opts (profiles(cc_name child \<mapsto> browserProfile a)) =
           (printed', Inl e)"
        by (cases "createChildCompilers pluginSelf co opts
                     (profiles(cc_name child \<mapsto> browserProfile a))") (auto simp add: isl_def)
      with Pair Inr show ?thesis by simp
    qed
  qed
qed

text \<open>
  C5, as the code has it. When some plugin instance of the parent configuration is also in
  the filtered plugin list of the child configuration of a target (whose \<^verbatim>\<open>plugins\<close>, as
  the constructor has checked, is absent or a function), creating the child
  compiler for that target prints \<^verbatim>\<open>Found plugin instance duplication:\<close> with the
  constructor name of the first such plugin of the parent (no plugin before it in the
  parent's list is in the child's list) and throws an error with one fixed message; and
  \<^verbatim>\<open>apply\<close> fails for every list of targets that holds that target.
\<close>

theorem duplicate_plugin_fails_fast:
  assumes "list_ex (\<lambda>p. list_ex (samePlugin p) (childPlugins pluginSelf co opt)) (co_plugins co)"
    and "mto_plugins opt \<noteq> PluginsOther"
  shows "(\<exists>before p after.
            co_plugins co = before @ p # after \<and>
            list_all (\<lambda>q. \<not> list_ex (samePlugin q) (childPlugins pluginSelf co opt)) before \<and>
            list_ex (samePlugin p) (childPlugins pluginSelf co opt) \<and>
            createChildCompiler pluginSelf co opt =
              ([''Found plugin instance duplication: '' @ constructor_name p],
               Inl (Error duplicationMessage))) \<and>
         (opt \<in> set opts \<longrightarrow> isl (snd (createChildCompilers pluginSelf co opts profiles)))"
proof -
  from find_list_ex [OF assms(1)] obtain p where
    found: "find (\<lambda>p. list_ex (samePlugin p) (childPlugins pluginSelf co opt)) (co_plugins co) =
      Some p"
    by blast
  from find_first [OF found] obtain before after where p:
    "co_plugins co = before @ p # after"
    "list_all (\<lambda>q. \<not> list_ex (samePlugin q) (childPlugins pluginSelf co opt)) before"
    "list_ex (samePlugin p) (childPlugins pluginSelf co opt)"
    by blast
  have c: "createChildCompiler pluginSelf co opt =
              ([''Found plugin instance duplication: '' @ constructor_name p],
               Inl (Error duplicationMessage))"
    using found assms(2) by (simp add: createChildCompiler_def)
  then have "isl (snd (createChildCompiler pluginSelf co opt))" by simp
  with createChildCompilers_fail [of opt opts pluginSelf co profiles] p c show ?thesis by blast
qed

theorem duplicate_plugin_fails_fast_witness:
  "list_ex (\<lambda>p. list_ex (samePlugin p)
       (childPlugins selfPlugin (parentOptions [barPlugin, fooPlugin]) legacyOptions))
     (co_plugins (parentOptions [barPlugin, fooPlugin])) \<and>
   mto_plugins legacyOptions \<noteq> PluginsOther \<and>
   co_plugins (parentOptions [barPlugin, fooPlugin]) = [selfPlugin, barPlugin, fooPlugin] \<and>
   childPlugins selfPlugin (parentOptions [barPlugin, fooPlugin]) legacyOptions =
     [barPlugin, fooPlugin] \<and>
   createChildCompiler selfPlugin (parentOptions [barPlugin, fooPlugin]) legacyOptions =
     ([''Found plugin instance duplication: BarPlugin''], Inl (Error duplicationMessage)) \<and>
   isl (snd (createChildCompilers selfPlugin (parentOptions [barPlugin, fooPlugin])
               [legacyOptions] Map.empty))"
proof -
  have a: "list_ex (\<lambda>p. list_ex (samePlugin p)
         (childPlugins selfPlugin (parentOptions [barPlugin, fooPlugin]) legacyOptions))
     (co_plugins (parentOptions [barPlugin, fooPlugin]))"
    by (simp add: childPlugins_def parentOptions_def selfPlugin_def fooPlugin_def barPlugin_def
        legacyOptions_def samePlugin_def FILTERED_PLUGINS_def)
  have b: "createChildCompiler selfPlugin (parentOptions [barPlugin, fooPlugin]) legacyOptions =
     ([''Found plugin instance duplication: BarPlugin''], Inl (Error duplicationMessage))"
    by (simp add: createChildCompiler_def childPlugins_def parentOptions_def selfPlugin_def
        fooPlugin_def barPlugin_def legacyOptions_def samePlugin_def FILTERED_PLUGINS_def)
  have c: "mto_plugins legacyOptions \<noteq> PluginsOther"
    by (simp add: legacyOptions_def)
  have d: "co_plugins (parentOptions [barPlugin, fooPlugin]) = [selfPlugin, barPlugin, fooPlugin]"
    "childPlugins selfPlugin (parentOptions [barPlugin, fooPlugin]) legacyOptions =
       [barPlugin, fooPlugin]"
    by (simp_all add: childPlugins_def parentOptions_def selfPlugin_def fooPlugin_def
        barPlugin_def legacyOptions_def samePlugin_def FILTERED_PLUGINS_def)
  from duplicate_plugin_fails_fast [OF a c, of "[legacyOptions]" Map.empty] a b c d
  show ?thesis by simp
qed

text \<open>
  C5 as stated fails: the error thrown for the shared plugin \<^verbatim>\<open>FooPlugin\<close> and the error
  thrown for the shared plugin \<^verbatim>\<open>BarPlugin\<close> carry the same message, which contains the
  name of neither; the name is in the line printed to the console.
\<close>

theorem duplicate_plugin_message_counterexample:
  "createChildCompiler selfPlugin (parentOptions [fooPlugin]) modernOptions =
     ([''Found plugin instance duplication: FooPlugin''], Inl (Error duplicationMessage)) \<and>
   createChildCompiler selfPlugin (parentOptions [barPlugin]) modernOptions =
     ([''Found plugin instance duplication: BarPlugin''], Inl (Error duplicationMessage)) \<and>
   \<not> sublist ''FooPlugin'' duplicationMessage \<and>
   \<not> sublist ''BarPlugin'' duplicationMessage"
  by (simp add: createChildCompiler_def childPlugins_def parentOptions_def selfPlugin_def
      fooPlugin_def barPlugin_def modernOptions_def samePlugin_def FILTERED_PLUGINS_def
      duplicationMessage_def sublist_Cons_right)

section \<open>Script tags after the merge\<close>






lemma recordedProfile_distinct:
  "distinct (map childName opts) \<Longrightarrow> opt \<in> set opts \<Longrightarrow>
   recordedProfile opts (childName opt) = Some (browserProfile opt)"
proof (induction opts rule: rev_induct)
  case Nil
  then show ?case by simp
next
  case (snoc a opts)
  show ?case
  proof (cases "childName a = childName opt")
    case True
    with snoc.prems have "opt = a" by (auto simp add: image_iff)
    then show ?thesis by (simp add: recordedProfile_def)
  next
    case False
    with snoc show ?thesis by (auto simp add: recordedProfile_def)
  qed
qed


text \<open>
  A child of the compilation that has no name ends the handler with a \<open>TypeError\<close>, whatever
  the page holds; the handler of \<^verbatim>\<open>html-webpack-plugin-before-html-generation\<close> tests the
  name first.
\<close>

lemma alterAssetTags_nameless_child:
  "alterAssetTags targetOptions profiles
     (before @ \<lparr> comp_name = None, comp_assets = assets \<rparr> # after) htmlPluginData =
   Inl TypeError"
proof -
  have "prefixedChildren (before @ \<lparr> comp_name = None, comp_assets = assets \<rparr> # after) =
      Inl TypeError"
    by (induction before) (auto split: option.splits sum.splits)
  then show ?thesis by (simp add: alterAssetTags_def)
qed

text \<open>
  A script tag whose \<^verbatim>\<open>src\<close> is the name of an inherited property counts as an asset of
  the first child with the reserved prefix: with a target of profile \<^verbatim>\<open>legacy\<close> configured,
  the tag \<^verbatim>\<open>toString\<close>, which no child emitted, gets \<^verbatim>\<open>nomodule\<close> from the child of that
  target.
\<close>

lemma alterAssetTags_inherited_src:
  "alterAssetTags [withDefaultKey legacyOptions, withDefaultKey modernOptions] pageProfiles
     [childOf ''legacy'' ''main.legacy.js'']
     \<lparr> html_head = [], html_body = [scriptTag ''toString''] \<rparr> =
   Inr \<lparr> html_head = [],
         html_body =
           [\<lparr> tagName = ''script'',
               attributes = [''src'' \<mapsto> AttrString ''toString'',
                             ''nomodule'' \<mapsto> AttrBool True] \<rparr>] \<rparr>"
  by (simp add: alterAssetTags_def alterScriptTag_def hasAsset_def inheritedProperty_def
      objectPrototype_def childOf_def scriptTag_def pageProfiles_def srcKey_def
      interpolate_def CHILD_COMPILER_PREFIX_def Let_def)





section \<open>Rewriting the loader chain\<close>

lemma indexOf_fresh:
  "ref x \<notin> ref ` set pre \<Longrightarrow> ref y = ref x \<Longrightarrow> indexOf (pre @ y # ys) x = int (length pre)"
  by (induction pre) (auto simp add: Let_def)

lemma splice_at: "splice (int (length pre)) items (pre @ y # ys) = pre @ items @ ys"
  by (simp add: splice_def Let_def)



lemma cacheExtended_refl: "cacheExtended this t this"
  by (simp add: cacheExtended_def split: option.split)

lemma cacheExtended_trans:
  "cacheExtended a t b \<Longrightarrow> cacheExtended b t c \<Longrightarrow> cacheExtended a t c"
  by (auto simp add: cacheExtended_def split: option.splits)

lemma cacheExtended_allocated: "cacheExtended this t (this\<lparr>allocated := n\<rparr>)"
  by (simp add: cacheExtended_def split: option.split)

lemma engineCache_allocated: "engineCache (this\<lparr>allocated := n\<rparr>) = engineCache this"
  by (simp add: engineCache_def)

lemma cacheExtended_kept:
  "cacheExtended a t b \<Longrightarrow> cachedLoader (babelLoaders a) (key t) = Some s \<Longrightarrow>
   cachedLoader (babelLoaders b) (key t) = Some s"
  by (simp add: cacheExtended_def)

lemma getTargetedBabelLoader_cached:
  assumes "engineCache this" and "getTargetedBabelLoader this l t = (targeted, this2)"
  shows "cachedLoader (babelLoaders this2) (key t) = Some targeted \<and> \<not> hostRef (ref targeted) \<and>
         cacheExtended this t this2 \<and> engineCache this2"
proof (cases "cachedLoader (babelLoaders this) (key t)")
  case None
  then have "babelLoaders this (key t) = None"
    by (simp add: cachedLoader_def split: option.splits if_splits)
  with None assms show ?thesis
    by (auto simp add: getTargetedBabelLoader_def Let_def cacheExtended_def engineCache_def
        hostRef_def cachedLoader_def split: if_splits)
next
  case (Some s)
  then have "\<not> hostRef (ref s)"
    using assms(1)
    by (auto simp add: cachedLoader_def engineCache_def inheritedMember_def hostRef_def
        split: option.splits if_splits)
  with Some assms show ?thesis
    by (auto simp add: getTargetedBabelLoader_def cacheExtended_def)
qed

lemma forEach_target:
  assumes "\<forall>a \<in> set rest. \<forall>b \<in> set rest. ref a = ref b \<longrightarrow> a = b"
    and "\<forall>m \<in> set rest. hostRef (ref m)"
    and "\<forall>m \<in> set rest. isMarker m \<longrightarrow> ref m \<notin> ref ` set pre"
    and "engineCache this"
  shows "\<exists>rest' this'.
           replaceLoaders_forEach this (Some t) (filter isMarker rest) (pre @ rest) =
             Inr (pre @ rest', this') \<and>
           list_all2 (replacement (babelLoaderPath this) (cachedLoader (babelLoaders this') (key t))) rest rest' \<and>
           cacheExtended this t this' \<and> engineCache this'"
  using assms
proof (induction rest arbitrary: pre this)
  case Nil
  then show ?case by (simp add: cacheExtended_refl)
next
  case (Cons e rest)
  have same: "\<forall>a \<in> set rest. \<forall>b \<in> set rest. ref a = ref b \<longrightarrow> a = b"
    using Cons.prems(1) by simp
  have host: "\<forall>m \<in> set rest. hostRef (ref m)" using Cons.prems(2) by simp
  have disj: "\<forall>m \<in> set rest. isMarker m \<longrightarrow> ref m \<notin> ref ` set pre"
    using Cons.prems(3) by simp
  have step: "\<forall>m \<in> set rest. isMarker m \<longrightarrow> ref m \<notin> ref ` set (pre @ [x])"
    if "\<not> hostRef (ref x)" for x
    using that host disj by auto
  show ?case
  proof (cases "isMarker e")
    case False
    have "\<forall>m \<in> set rest. isMarker m \<longrightarrow> ref m \<notin> ref ` set (pre @ [e])"
    proof (intro ballI impI)
      fix m assume m: "m \<in> set rest" "isMarker m"
      then have "ref m \<noteq> ref e" using Cons.prems(1) False by auto
      moreover have "ref m \<notin> ref ` set pre" using disj m by simp
      ultimately show "ref m \<notin> ref ` set (pre @ [e])" by auto
    qed
    from Cons.IH [OF same host this Cons.prems(4)] obtain rest' this' where
      "replaceLoaders_forEach this (Some t) (filter isMarker rest) ((pre @ [e]) @ rest) =
         Inr ((pre @ [e]) @ rest', this')"
      "list_all2 (replacement (babelLoaderPath this) (cachedLoader (babelLoaders this') (key t))) rest rest'"
      "cacheExtended this t this'" "engineCache this'"
      by blast
    moreover have "replacement (babelLoaderPath this) (cachedLoader (babelLoaders this') (key t)) e e"
      using False by (simp add: replacement_def)
    ultimately show ?thesis
      using False by (intro exI [of _ "e # rest'"] exI [of _ this']) simp
  next
    case True
    then obtain inner payload where opts: "loader_options e = OptionsObject True inner payload"
      by (auto simp add: isMarker_def split: js_options.splits)
    have fresh: "ref e \<notin> ref ` set pre" using Cons.prems(3) True by simp
    have index: "indexOf (pre @ e # rest) e = int (length pre)"
      by (rule indexOf_fresh [OF fresh refl])
    define effectiveLoader where
      "effectiveLoader = \<lparr> ref = EngineRef (allocated this), loader = loader e,
                           loader_options = inner, ident = ident e \<rparr>"
    define this1 where "this1 = this\<lparr>allocated := Suc (allocated this)\<rparr>"
    have ext1: "cacheExtended this t this1" and cache1: "engineCache this1"
      and path1: "babelLoaderPath this1 = babelLoaderPath this"
      using Cons.prems(4)
      by (simp_all add: this1_def cacheExtended_allocated engineCache_allocated)
    show ?thesis
    proof (cases "loader e = Some (babelLoaderPath this)")
      case False
      have eng: "\<not> hostRef (ref effectiveLoader)"
        by (simp add: effectiveLoader_def hostRef_def)
      from Cons.IH [OF same host step [OF eng] cache1] obtain rest' this' where r:
        "replaceLoaders_forEach this1 (Some t) (filter isMarker rest)
           ((pre @ [effectiveLoader]) @ rest) = Inr ((pre @ [effectiveLoader]) @ rest', this')"
        "list_all2 (replacement (babelLoaderPath this1) (cachedLoader (babelLoaders this') (key t))) rest rest'"
        "cacheExtended this1 t this'" "engineCache this'"
        by blast
      have run: "replaceLoaders_forEach this (Some t) (filter isMarker (e # rest)) (pre @ e # rest) =
          Inr (pre @ effectiveLoader # rest', this')"
        using True False opts index r(1) splice_at [of pre "[effectiveLoader]" e rest]
        by (simp add: Let_def effectiveLoader_def this1_def)
      have "replacement (babelLoaderPath this) (cachedLoader (babelLoaders this') (key t)) e effectiveLoader"
        using True False opts eng by (simp add: replacement_def effectiveLoader_def)
      with run r path1 cacheExtended_trans [OF ext1 r(3)] show ?thesis
        by (intro exI [of _ "effectiveLoader # rest'"] exI [of _ this']) simp
    next
      case babel: True
      obtain targeted this2 where g: "getTargetedBabelLoader this1 effectiveLoader t = (targeted, this2)"
        by (cases "getTargetedBabelLoader this1 effectiveLoader t")
      from getTargetedBabelLoader_cached [OF cache1 g]
      have c2: "cachedLoader (babelLoaders this2) (key t) = Some targeted" and eng: "\<not> hostRef (ref targeted)"
        and ext2: "cacheExtended this1 t this2" and cache2: "engineCache this2"
        by simp_all
      have path2: "babelLoaderPath this2 = babelLoaderPath this"
        using ext2 path1 by (simp add: cacheExtended_def)
      from Cons.IH [OF same host step [OF eng] cache2] obtain rest' this' where r:
        "replaceLoaders_forEach this2 (Some t) (filter isMarker rest)
           ((pre @ [targeted]) @ rest) = Inr ((pre @ [targeted]) @ rest', this')"
        "list_all2 (replacement (babelLoaderPath this2) (cachedLoader (babelLoaders this') (key t))) rest rest'"
        "cacheExtended this2 t this'" "engineCache this'"
        by blast
      have run: "replaceLoaders_forEach this (Some t) (filter isMarker (e # rest)) (pre @ e # rest) =
          Inr (pre @ targeted # rest', this')"
        using True babel opts index r(1) splice_at [of pre "[targeted]" e rest] g
        by (simp add: Let_def effectiveLoader_def this1_def)
      have "cachedLoader (babelLoaders this') (key t) = Some targeted"
        by (rule cacheExtended_kept [OF r(3) c2])
      then have "replacement (babelLoaderPath this) (cachedLoader (babelLoaders this') (key t)) e targeted"
        using True babel by (simp add: replacement_def)
      with run r path2 cacheExtended_trans [OF cacheExtended_trans [OF ext1 ext2] r(3)]
      show ?thesis
        by (intro exI [of _ "targeted # rest'"] exI [of _ this']) simp
    qed
  qed
qed


text \<open>
  For a target whose key is the name of an inherited property nothing is created or
  stored: the built-in of that name is returned as the chain entry.
\<close>

lemma getTargetedBabelLoader_inherited_key:
  "getTargetedBabelLoader engine0 l \<lparr> key = ''toString'', options = targetOptions \<rparr> =
     (inheritedMember ''toString'', engine0)"
  by (simp add: getTargetedBabelLoader_def cachedLoader_def inheritedProperty_def
      objectPrototype_def engine0_def)

lemma hostChain_same:
  "hostChain chain \<Longrightarrow> \<forall>a \<in> set chain. \<forall>b \<in> set chain. ref a = ref b \<longrightarrow> a = b"
  by (simp add: hostChain_def list_all_iff)

lemma hostChain_host: "hostChain chain \<Longrightarrow> \<forall>m \<in> set chain. hostRef (ref m)"
  by (simp add: hostChain_def list_all_iff)





















text \<open>
  A module resolved later with the same target, starting from the plugin the first call
  left, gets the very object the first module got.
\<close>

lemma replaceLoaders_reuses_cached:
  assumes "hostChain (rc_loaders resolveContext)" and "engineCache this"
    and "replaceLoaders_babelTarget imports this resolveContext = Inr (Some t)"
    and "cachedLoader (babelLoaders this) (key t) = Some shared"
    and "replaceLoaders imports this resolveContext (markerLoaders resolveContext) =
           Inr (resolveContext', this')"
  shows "list_all2 (replacement (babelLoaderPath this) (Some shared))
           (rc_loaders resolveContext) (rc_loaders resolveContext')"
proof -
  from forEach_target [OF hostChain_same [OF assms(1)] hostChain_host [OF assms(1)] _ assms(2),
      of "[]" t]
  obtain chain this'' where r:
    "replaceLoaders_forEach this (Some t) (filter isMarker (rc_loaders resolveContext))
          (rc_loaders resolveContext) = Inr (chain, this'')"
    "list_all2 (replacement (babelLoaderPath this) (cachedLoader (babelLoaders this'') (key t)))
        (rc_loaders resolveContext) chain"
    "cacheExtended this t this''"
    by auto
  have "cachedLoader (babelLoaders this'') (key t) = Some shared"
    by (rule cacheExtended_kept [OF r(3) assms(4)])
  moreover have "rc_loaders resolveContext' = chain"
    using assms(3,5) r(1) by (auto simp add: replaceLoaders_def markerLoaders_def)
  ultimately show ?thesis using r(2) by simp
qed

end
